theory Spec2Isabelle
  imports Complex_Main
begin

section \<open>The Bandcamp extractor plugin of DisTuneJS/plugins\<close>

text \<open>
  A shallow embedding of \<^verbatim>\<open>packages/bandcamp/src/index.ts\<close> (class \<^verbatim>\<open>BandcampPlugin\<close>,
  \<^verbatim>\<open>BandcampSong\<close>, \<^verbatim>\<open>BandcampAlbum\<close>). The plugin is TypeScript, but everything it reads
  from the network is typed \<^verbatim>\<open>any\<close>, so the values are modelled as they are at run time:
  JSON values, with \<open>None\<close> for \<^verbatim>\<open>undefined\<close>. Exceptions are values of type \<open>error\<close>,
  and a function that throws returns \<open>Inl\<close> of it. Network requests and console output
  are collected in a list of events that every effectful function returns beside its
  result.
\<close>

subsection \<open>JavaScript values\<close>

text \<open>
  A JavaScript number is a double: not-a-number, an infinity, or a finite value, which is a
  rational. Only comparisons with 0 and 1, the integer test and equality are used, and
  they are exact on the rational (\<^verbatim>\<open>-0\<close> and \<^verbatim>\<open>0\<close> are equal and both falsy).
\<close>

datatype jsnum = NaN | PosInf | NegInf | Fin rat

datatype json =
    JNull
  | JBool bool
  | JNum jsnum
  | JStr string
  | JArr "json list"
  | JObj "(string \<times> json) list"

type_synonym jsval = "json option"

text \<open>\<^verbatim>\<open>Boolean(x)\<close>, the test of \<^verbatim>\<open>!x\<close>, \<^verbatim>\<open>x || y\<close> and \<^verbatim>\<open>x && y\<close>.\<close>

fun truthy :: "jsval \<Rightarrow> bool" where
  "truthy None = False"
| "truthy (Some JNull) = False"
| "truthy (Some (JBool b)) = b"
| "truthy (Some (JNum n)) = (n \<noteq> NaN \<and> n \<noteq> Fin 0)"
| "truthy (Some (JStr s)) = (s \<noteq> [])"
| "truthy (Some (JArr xs)) = True"
| "truthy (Some (JObj kvs)) = True"

text \<open>\<^verbatim>\<open>a || b\<close>\<close>

definition or_else :: "jsval \<Rightarrow> jsval \<Rightarrow> jsval" where
  "or_else a b = (if truthy a then a else b)"

text \<open>
  \<^verbatim>\<open>x.k\<close> for a value \<open>x\<close> that is neither \<^verbatim>\<open>null\<close> nor \<^verbatim>\<open>undefined\<close>, and a key \<open>k\<close> that
  names data (\<^verbatim>\<open>trackinfo\<close>, \<^verbatim>\<open>file\<close>, \<^verbatim>\<open>mp3-128\<close>, \<^verbatim>\<open>track_id\<close>, ...: none of the keys the plugin
  reads is a built-in property of a string, number, boolean or array). An object parsed
  from JSON has its own keys only.
\<close>

fun get :: "json \<Rightarrow> string \<Rightarrow> jsval" where
  "get (JObj kvs) k = map_of kvs k"
| "get j k = None"

subsection \<open>Errors\<close>

datatype error =
    TypeError
  | SyntaxError
  | Error string
  | DisTuneError string "arg list"
and arg =
    AStr string
  | AVal jsval
  | AMessageOf error

text \<open>
  \<open>Error m\<close> is \<^verbatim>\<open>new Error(m)\<close>; \<open>DisTuneError code args\<close> is \<^verbatim>\<open>new DisTuneError(code, ...args)\<close>
  of the host framework, with its arguments as they are passed: a string, a value, or
  \<open>AMessageOf e\<close> for the \<^verbatim>\<open>message\<close> of a caught error \<open>e\<close>.
\<close>

text \<open>\<^verbatim>\<open>x.k\<close> for any \<open>x\<close>: reading a property of \<^verbatim>\<open>null\<close> or \<^verbatim>\<open>undefined\<close> throws a TypeError.\<close>

fun getprop :: "jsval \<Rightarrow> string \<Rightarrow> error + jsval" where
  "getprop None k = Inl TypeError"
| "getprop (Some JNull) k = Inl TypeError"
| "getprop (Some j) k = Inr (get j k)"

text \<open>\<^verbatim>\<open>x?.k\<close>: \<^verbatim>\<open>undefined\<close> when \<open>x\<close> is \<^verbatim>\<open>null\<close> or \<^verbatim>\<open>undefined\<close>.\<close>

fun oprop :: "jsval \<Rightarrow> string \<Rightarrow> jsval" where
  "oprop None k = None"
| "oprop (Some JNull) k = None"
| "oprop (Some j) k = get j k"

text \<open>\<^verbatim>\<open>x?.[0]\<close>: the first element of an array, the first character of a string.\<close>

fun oindex0 :: "jsval \<Rightarrow> jsval" where
  "oindex0 (Some (JArr xs)) = (case xs of [] \<Rightarrow> None | x # _ \<Rightarrow> Some x)"
| "oindex0 (Some (JStr s)) = (case s of [] \<Rightarrow> None | c # _ \<Rightarrow> Some (JStr [c]))"
| "oindex0 (Some (JObj kvs)) = map_of kvs ''0''"
| "oindex0 v = None"

text \<open>\<^verbatim>\<open>x?.length\<close>\<close>

fun olength :: "jsval \<Rightarrow> jsval" where
  "olength (Some (JArr xs)) = Some (JNum (Fin (of_nat (length xs))))"
| "olength (Some (JStr s)) = Some (JNum (Fin (of_nat (length s))))"
| "olength (Some (JObj kvs)) = map_of kvs ''length''"
| "olength v = None"

text \<open>
  \<^verbatim>\<open>a === b\<close>. Primitives are compared by value (\<^verbatim>\<open>NaN\<close> equals nothing); arrays and
  objects by identity, and in the two comparisons of the plugin one side is a string.
\<close>

fun strict_eq :: "jsval \<Rightarrow> jsval \<Rightarrow> bool" where
  "strict_eq None None = True"
| "strict_eq (Some JNull) (Some JNull) = True"
| "strict_eq (Some (JBool a)) (Some (JBool b)) = (a = b)"
| "strict_eq (Some (JNum a)) (Some (JNum b)) = (a \<noteq> NaN \<and> a = b)"
| "strict_eq (Some (JStr a)) (Some (JStr b)) = (a = b)"
| "strict_eq a b = False"

text \<open>
  A method of \<^verbatim>\<open>Array.prototype\<close> (\<^verbatim>\<open>filter\<close>, \<^verbatim>\<open>slice\<close>, \<^verbatim>\<open>map\<close>) called on a value: a
  TypeError on anything but an array (no JSON value holds a function).
\<close>

fun as_array :: "jsval \<Rightarrow> error + json list" where
  "as_array (Some (JArr xs)) = Inr xs"
| "as_array v = Inl TypeError"

text \<open>\<^verbatim>\<open>xs.filter(p)\<close> and \<^verbatim>\<open>xs.map(f)\<close> with a callback that may throw: the first throw ends the call.\<close>

fun filter_js :: "('a \<Rightarrow> error + bool) \<Rightarrow> 'a list \<Rightarrow> error + 'a list" where
  "filter_js p [] = Inr []"
| "filter_js p (x # xs) =
     (case p x of
        Inl e \<Rightarrow> Inl e
      | Inr b \<Rightarrow> (case filter_js p xs of
                   Inl e \<Rightarrow> Inl e
                 | Inr ys \<Rightarrow> Inr (if b then x # ys else ys)))"

fun map_js :: "('a \<Rightarrow> error + 'b) \<Rightarrow> 'a list \<Rightarrow> error + 'b list" where
  "map_js f [] = Inr []"
| "map_js f (x # xs) =
     (case f x of
        Inl e \<Rightarrow> Inl e
      | Inr y \<Rightarrow> (case map_js f xs of
                   Inl e \<Rightarrow> Inl e
                 | Inr ys \<Rightarrow> Inr (y # ys)))"

text \<open>Sequencing of steps that may throw.\<close>

definition ebind :: "error + 'a \<Rightarrow> ('a \<Rightarrow> error + 'b) \<Rightarrow> error + 'b" where
  "ebind m f = (case m of Inl e \<Rightarrow> Inl e | Inr x \<Rightarrow> f x)"

subsection \<open>Strings\<close>

text \<open>\<^verbatim>\<open>s.startsWith(p)\<close>, \<^verbatim>\<open>s.endsWith(p)\<close>, \<^verbatim>\<open>s.includes(p)\<close>\<close>

definition startsWith :: "string \<Rightarrow> string \<Rightarrow> bool" where
  "startsWith s p = (take (length p) s = p)"

definition endsWith :: "string \<Rightarrow> string \<Rightarrow> bool" where
  "endsWith s p = (length p \<le> length s \<and> drop (length s - length p) s = p)"

fun includes_str :: "string \<Rightarrow> string \<Rightarrow> bool" where
  "includes_str [] p = (p = [])"
| "includes_str (c # cs) p = (startsWith (c # cs) p \<or> includes_str cs p)"

text \<open>\<^verbatim>\<open>s.split(sep)[0]\<close> for a separator that is not empty: the text before its first occurrence.\<close>

fun split0 :: "string \<Rightarrow> string \<Rightarrow> string" where
  "split0 [] sep = []"
| "split0 (c # cs) sep = (if startsWith (c # cs) sep then [] else c # split0 cs sep)"

text \<open>
  \<^verbatim>\<open>s.replace(/pat/g, rep)\<close> for a pattern without metacharacters: every occurrence, from
  the left, without overlap.
\<close>

function replace_g :: "string \<Rightarrow> string \<Rightarrow> string \<Rightarrow> string" where
  "replace_g pat rep [] = []"
| "replace_g pat rep (c # cs) =
     (if pat \<noteq> [] \<and> startsWith (c # cs) pat
      then rep @ replace_g pat rep (drop (length pat) (c # cs))
      else c # replace_g pat rep cs)"
  by pat_completeness auto
termination
  by (relation "measure (\<lambda>(pat, rep, s). length s)") auto

text \<open>
  \<^verbatim>\<open>s.match(/pre([^"]+)"/)\<close>, its first group: the leftmost place where \<open>pre\<close> is followed
  by one or more characters other than a double quote and then by a double quote.
\<close>

fun match_quoted :: "string \<Rightarrow> string \<Rightarrow> string option" where
  "match_quoted pre [] = None"
| "match_quoted pre (c # cs) =
     (let rest = drop (length pre) (c # cs);
          val = takeWhile (\<lambda>x. x \<noteq> CHR 0x22) rest;
          after = dropWhile (\<lambda>x. x \<noteq> CHR 0x22) rest
      in if startsWith (c # cs) pre \<and> val \<noteq> [] \<and> after \<noteq> [] then Some val
         else match_quoted pre cs)"

text \<open>
  The entity decoding of \<^verbatim>\<open>parseTrackPage\<close>, \<^verbatim>\<open>parseAlbumPage\<close> and \<^verbatim>\<open>getRelatedSongs\<close>: five
  replacements, in the order of the source.
\<close>

definition entity_decode :: "string \<Rightarrow> string" where
  "entity_decode s =
     replace_g ''&#39;'' [CHR 0x27]
       (replace_g ''&gt;'' ''>''
         (replace_g ''&lt;'' ''<''
           (replace_g ''&amp;'' ''&''
             (replace_g ''&quot;'' [CHR 0x22] s))))"

text \<open>
  Modelled from the spec: the repository has no encoder (the attribute is written by the
  remote site). \<open>html_encode\<close> is the encoding whose five escapes the extractor reverses:
  each of the five characters is replaced by its entity, every other character is kept.
\<close>

fun html_encode :: "string \<Rightarrow> string" where
  "html_encode [] = []"
| "html_encode (c # cs) =
     (if c = CHR 0x22 then ''&quot;''
      else if c = CHR ''&'' then ''&amp;''
      else if c = CHR ''<'' then ''&lt;''
      else if c = CHR ''>'' then ''&gt;''
      else if c = CHR 0x27 then ''&#39;''
      else [c]) @ html_encode cs"

subsection \<open>The runtime and the network\<close>

text \<open>
  What the plugin calls and does not define: \<^verbatim>\<open>fetch\<close>, \<^verbatim>\<open>JSON.parse\<close> (also behind
  \<^verbatim>\<open>response.json()\<close>), the \<^verbatim>\<open>URL\<close> constructor and the conversion of a value to a string
  (\<^verbatim>\<open>x.toString()\<close> and \<^verbatim>\<open>`${x}`\<close>, which agree on the values of JSON). They are parameters,
  and each may throw.
\<close>

record response =
  ok :: bool
  status :: nat
  statusText :: string
  body :: string

text \<open>A request: method, URL as it is handed to \<^verbatim>\<open>fetch\<close>, headers, and the value sent as JSON.\<close>

datatype request = Request string json "(string \<times> string) list" jsval

record url =
  hostname :: string
  pathname :: string

record env =
  fetch :: "request \<Rightarrow> error + response"
  JSON_parse :: "string \<Rightarrow> error + json"
  new_URL :: "string \<Rightarrow> error + url"
  toString :: "json \<Rightarrow> error + string"

datatype logged = LError error | LValue jsval

datatype event = Fetch request | ConsoleError string logged

text \<open>An effectful computation: what it returns or throws, and the events it caused.\<close>

type_synonym 'a io = "(error + 'a) \<times> event list"

definition io_bind :: "'a io \<Rightarrow> ('a \<Rightarrow> 'b io) \<Rightarrow> 'b io" where
  "io_bind m f =
     (case m of
        (Inl e, evs) \<Rightarrow> (Inl e, evs)
      | (Inr x, evs) \<Rightarrow> (case f x of (r, evs') \<Rightarrow> (r, evs @ evs')))"

text \<open>A method of \<^verbatim>\<open>String.prototype\<close> (\<^verbatim>\<open>split\<close>, \<^verbatim>\<open>startsWith\<close>) called on a value.\<close>

fun str_method :: "jsval \<Rightarrow> (string \<Rightarrow> 'a) \<Rightarrow> error + 'a" where
  "str_method (Some (JStr s)) f = Inr (f s)"
| "str_method v f = Inl TypeError"

text \<open>\<^verbatim>\<open>x?.toString()\<close>\<close>

fun otoString :: "env \<Rightarrow> jsval \<Rightarrow> error + jsval" where
  "otoString E None = Inr None"
| "otoString E (Some JNull) = Inr None"
| "otoString E (Some j) = ebind (toString E j) (\<lambda>s. Inr (Some (JStr s)))"

subsection \<open>Entities\<close>

text \<open>
  \<^verbatim>\<open>interface BandcampTrackInfo\<close> and \<^verbatim>\<open>interface BandcampAlbumInfo\<close>. The fields are declared
  as strings and numbers, and hold whatever the page data holds.
\<close>

record BandcampTrackInfo =
  t_id :: jsval
  t_title :: jsval
  t_artist :: jsval
  t_album :: jsval
  t_duration :: jsval
  t_url :: jsval
  t_thumbnail :: jsval
  t_streamUrl :: jsval
  t_trackNumber :: jsval

record BandcampAlbumInfo =
  a_id :: jsval
  a_title :: jsval
  a_artist :: jsval
  a_url :: jsval
  a_thumbnail :: jsval
  a_tracks :: "BandcampTrackInfo list"

text \<open>
  \<^verbatim>\<open>class BandcampSong extends Song\<close> and \<^verbatim>\<open>class BandcampAlbum extends Album\<close>: the fields
  handed to the constructors of the host framework (which are not part of the plugin and
  are taken to store them), and the two fields that \<^verbatim>\<open>BandcampSong\<close> adds.
\<close>

record song =
  song_source :: string
  song_id :: jsval
  song_name :: jsval
  song_url :: jsval
  song_thumbnail :: jsval
  song_duration :: jsval
  uploader_name :: jsval
  uploader_url :: string
  streamUrl :: jsval
  trackNumber :: jsval

record album =
  album_source :: string
  album_id :: jsval
  album_name :: jsval
  album_artist :: jsval
  album_url :: jsval
  album_thumbnail :: jsval
  album_songs :: "song list"

text \<open>The constructor of \<^verbatim>\<open>BandcampSong\<close>.\<close>

definition BandcampSong :: "BandcampTrackInfo \<Rightarrow> error + song" where
  "BandcampSong info =
     ebind
       (if truthy (t_streamUrl info)
        then str_method (t_streamUrl info)
               (\<lambda>s. Some (JStr (if \<not> startsWith s ''http://'' \<and> \<not> startsWith s ''https://''
                                 then ''https:'' @ s else s)))
        else Inr (t_streamUrl info))
       (\<lambda>finalStreamUrl.
     ebind
       (str_method (t_url info)
          (\<lambda>u. if split0 u ''/track/'' \<noteq> [] then split0 u ''/track/'' else split0 u ''/album/''))
       (\<lambda>up.
     Inr \<lparr> song_source = ''bandcamp'',
           song_id = t_id info,
           song_name = t_title info,
           song_url = t_url info,
           song_thumbnail = t_thumbnail info,
           song_duration = t_duration info,
           uploader_name = t_artist info,
           uploader_url = up,
           streamUrl = finalStreamUrl,
           trackNumber = t_trackNumber info \<rparr>))"

text \<open>The constructor of \<^verbatim>\<open>BandcampAlbum\<close>.\<close>

definition BandcampAlbum :: "BandcampAlbumInfo \<Rightarrow> error + album" where
  "BandcampAlbum info =
     ebind (map_js BandcampSong (a_tracks info))
       (\<lambda>songs.
     Inr \<lparr> album_source = ''bandcamp'',
           album_id = a_id info,
           album_name = a_title info,
           album_artist = a_artist info,
           album_url = a_url info,
           album_thumbnail = a_thumbnail info,
           album_songs = songs \<rparr>)"

subsection \<open>The plugin\<close>

text \<open>\<^verbatim>\<open>validate(url)\<close>: the body of the \<^verbatim>\<open>try\<close>, then the method with its \<^verbatim>\<open>catch\<close>.\<close>

definition validate_try :: "env \<Rightarrow> string \<Rightarrow> error + bool" where
  "validate_try E u =
     ebind (new_URL E u)
       (\<lambda>parsed. Inr (endsWith (hostname parsed) ''.bandcamp.com'' \<and>
                      (includes_str (pathname parsed) ''/track/'' \<or>
                       includes_str (pathname parsed) ''/album/'')))"

fun validate :: "env \<Rightarrow> jsval \<Rightarrow> bool" where
  "validate E (Some (JStr u)) = (case validate_try E u of Inl e \<Rightarrow> False | Inr b \<Rightarrow> b)"
| "validate E v = False"

text \<open>\<^verbatim>\<open>fetchPage(url)\<close>\<close>

definition user_agent :: string where
  "user_agent = ''Mozilla/5.0 (Windows NT 10.0; Win64; x64) AppleWebKit/537.36 (KHTML, like Gecko) Chrome/120.0.0.0 Safari/537.36''"

definition page_request :: "json \<Rightarrow> request" where
  "page_request u = Request ''GET'' u [(''User-Agent'', user_agent)] None"

definition fetchPage :: "env \<Rightarrow> json \<Rightarrow> string io" where
  "fetchPage E u =
     (case fetch E (page_request u) of
        Inl e \<Rightarrow> Inl e
      | Inr r \<Rightarrow>
          if \<not> ok r
          then ebind (toString E (JNum (Fin (of_nat (status r)))))
                 (\<lambda>st. Inl (Error (''Failed to fetch page: '' @ st @ '' '' @ statusText r)))
          else Inr (body r),
      [Fetch (page_request u)])"

text \<open>\<^verbatim>\<open>extractArtistFromMeta(html)\<close> and \<^verbatim>\<open>extractThumbnailFromMeta(html)\<close>\<close>

definition extractArtistFromMeta :: "string \<Rightarrow> string" where
  \<open>extractArtistFromMeta html =
     (case match_quoted ''<meta property="og:site_name" content="'' html of
        Some m \<Rightarrow> m
      | None \<Rightarrow> ''Unknown Artist'')\<close>

definition extractThumbnailFromMeta :: "string \<Rightarrow> jsval" where
  \<open>extractThumbnailFromMeta html =
     (case match_quoted ''<meta property="og:image" content="'' html of
        Some m \<Rightarrow> Some (JStr m)
      | None \<Rightarrow> None)\<close>

text \<open>
  The start of the three parsers: the attribute is found, its entities are decoded, the
  text is parsed as JSON. \<open>missing\<close> is the message of the error thrown when the attribute
  is not there.
\<close>

definition match_tralbum :: "string \<Rightarrow> string option" where
  \<open>match_tralbum html = match_quoted ''data-tralbum="'' html\<close>

definition extract_tralbum :: "env \<Rightarrow> string \<Rightarrow> string \<Rightarrow> error + json" where
  "extract_tralbum E missing html =
     (case match_tralbum html of
        None \<Rightarrow> Inl (Error missing)
      | Some m \<Rightarrow> JSON_parse E (entity_decode m))"

text \<open>\<^verbatim>\<open>trackInfo.track_id?.toString() || trackInfo.title_link\<close>\<close>

definition track_id_of :: "env \<Rightarrow> json \<Rightarrow> error + jsval" where
  "track_id_of E trackInfo =
     ebind (otoString E (get trackInfo ''track_id''))
       (\<lambda>s. Inr (or_else s (get trackInfo ''title_link'')))"

text \<open>\<^verbatim>\<open>t.file?.['mp3-128']\<close>, which throws when \<open>t\<close> is \<^verbatim>\<open>null\<close>.\<close>

definition mp3_128 :: "json \<Rightarrow> error + jsval" where
  "mp3_128 t = ebind (getprop (Some t) ''file'') (\<lambda>f. Inr (oprop f ''mp3-128''))"

text \<open>
  \<^verbatim>\<open>parseTrackPage(html, url, options)\<close>. \<open>track_page_info\<close> is the object literal \<^verbatim>\<open>info\<close>,
  built from the first entry of \<^verbatim>\<open>trackinfo\<close> once its stream URL is known to be there
  (so the entry is an object). The options are handed on to the host framework only.
\<close>

definition track_page_info ::
    "env \<Rightarrow> string \<Rightarrow> json \<Rightarrow> json \<Rightarrow> json \<Rightarrow> jsval \<Rightarrow> error + BandcampTrackInfo" where
  "track_page_info E html url tralbumData trackInfo mp3 =
     ebind (track_id_of E trackInfo)
       (\<lambda>i.
     Inr \<lparr> t_id = i,
           t_title = get trackInfo ''title'',
           t_artist = or_else (get tralbumData ''artist'') (Some (JStr (extractArtistFromMeta html))),
           t_album = oprop (get tralbumData ''current'') ''title'',
           t_duration = or_else (get trackInfo ''duration'') (Some (JNum (Fin 0))),
           t_url = Some url,
           t_thumbnail =
             or_else (or_else (get tralbumData ''artFullsizeUrl'') (get tralbumData ''artThumbURL''))
               (extractThumbnailFromMeta html),
           t_streamUrl = mp3,
           t_trackNumber = get trackInfo ''track_num'' \<rparr>)"

definition parseTrackPage :: "env \<Rightarrow> string \<Rightarrow> json \<Rightarrow> song io" where
  "parseTrackPage E html url =
     (case extract_tralbum E ''Could not find track data on page'' html of
        Inl e \<Rightarrow> (Inl e, [])
      | Inr tralbumData \<Rightarrow>
          (case getprop (Some tralbumData) ''trackinfo'' of
             Inl e \<Rightarrow> (Inl e, [])
           | Inr trackinfo \<Rightarrow>
               (let first = oindex0 trackinfo;
                    mp3 = oprop (oprop first ''file'') ''mp3-128''
                in if \<not> truthy mp3
                   then (Inl (Error ''Could not find MP3 stream URL''),
                         [ConsoleError ''Available track info:'' (LValue first)])
                   else (case first of
                           None \<Rightarrow> Inl TypeError
                         | Some trackInfo \<Rightarrow>
                             ebind (track_page_info E html url tralbumData trackInfo mp3)
                               BandcampSong,
                         []))))"

text \<open>
  \<^verbatim>\<open>parseAlbumPage(html, url, options)\<close>. \<open>album_track_info\<close> is the callback of \<^verbatim>\<open>map\<close>; it
  runs on the entries that passed the filter, which are objects. \<open>assemble_album\<close> is the
  method from the decoded record on.
\<close>

definition album_track_info ::
    "env \<Rightarrow> json \<Rightarrow> json \<Rightarrow> jsval \<Rightarrow> jsval \<Rightarrow> json \<Rightarrow> error + BandcampTrackInfo" where
  "album_track_info E url tralbumData artist thumbnail trackInfo =
     ebind (track_id_of E trackInfo)
       (\<lambda>i.
     ebind
       (case get trackInfo ''title_link'' of
          None \<Rightarrow> Inr (Some url)
        | Some link \<Rightarrow>
            if truthy (Some link)
            then ebind (str_method (Some url) (\<lambda>u. split0 u ''/album/''))
                   (\<lambda>base. ebind (toString E link)
                   (\<lambda>slug. Inr (Some (JStr (base @ ''/track/'' @ slug)))))
            else Inr (Some url))
       (\<lambda>u.
     Inr \<lparr> t_id = i,
           t_title = get trackInfo ''title'',
           t_artist = artist,
           t_album = oprop (get tralbumData ''current'') ''title'',
           t_duration = or_else (get trackInfo ''duration'') (Some (JNum (Fin 0))),
           t_url = u,
           t_thumbnail = thumbnail,
           t_streamUrl = oprop (get trackInfo ''file'') ''mp3-128'',
           t_trackNumber = get trackInfo ''track_num'' \<rparr>))"

text \<open>The callback of the filter: \<^verbatim>\<open>(t) => t.file?.['mp3-128']\<close>, taken as a boolean.\<close>

definition has_stream :: "json \<Rightarrow> error + bool" where
  "has_stream t = ebind (mp3_128 t) (\<lambda>m. Inr (truthy m))"

definition assemble_album :: "env \<Rightarrow> string \<Rightarrow> json \<Rightarrow> json \<Rightarrow> error + album" where
  "assemble_album E html url tralbumData =
     ebind (getprop (Some tralbumData) ''artist'')
       (\<lambda>a.
     (let artist = or_else a (Some (JStr (extractArtistFromMeta html)));
          thumbnail =
            or_else (or_else (get tralbumData ''artFullsizeUrl'') (get tralbumData ''artThumbURL''))
              (extractThumbnailFromMeta html)
      in
     ebind (as_array (get tralbumData ''trackinfo''))
       (\<lambda>trackinfo.
     ebind (filter_js has_stream trackinfo)
       (\<lambda>kept.
     ebind (map_js (album_track_info E url tralbumData artist thumbnail) kept)
       (\<lambda>tracks.
     ebind (otoString E (oprop (get tralbumData ''current'') ''id''))
       (\<lambda>i.
     BandcampAlbum
       \<lparr> a_id = or_else i (Some url),
         a_title = or_else (oprop (get tralbumData ''current'') ''title'')
                     (Some (JStr ''Unknown Album'')),
         a_artist = artist,
         a_url = Some url,
         a_thumbnail = thumbnail,
         a_tracks = tracks \<rparr>))))))"

definition parseAlbumPage :: "env \<Rightarrow> string \<Rightarrow> json \<Rightarrow> error + album" where
  "parseAlbumPage E html url =
     ebind (extract_tralbum E ''Could not find album data on page'' html)
       (assemble_album E html url)"

text \<open>
  The \<^verbatim>\<open>catch\<close> of \<^verbatim>\<open>resolve\<close>, \<^verbatim>\<open>searchSongs\<close> and \<^verbatim>\<open>searchAlbums\<close>: whatever the \<^verbatim>\<open>try\<close> block
  throws is thrown again as a \<^verbatim>\<open>DisTuneError\<close> of the given code with the message of the
  caught error.
\<close>

definition rethrow :: "string \<Rightarrow> 'a io \<Rightarrow> 'a io" where
  "rethrow code m =
     (case m of
        (Inl e, evs) \<Rightarrow> (Inl (DisTuneError code [AMessageOf e]), evs)
      | (Inr x, evs) \<Rightarrow> (Inr x, evs))"

text \<open>\<^verbatim>\<open>resolve(url, options)\<close>: the body of the \<^verbatim>\<open>try\<close>, then the method.\<close>

definition resolve_try :: "env \<Rightarrow> string \<Rightarrow> (song + album) io" where
  "resolve_try E u =
     io_bind (fetchPage E (JStr u))
       (\<lambda>html.
          if includes_str u ''/track/''
          then io_bind (parseTrackPage E html (JStr u)) (\<lambda>s. (Inr (Inl s), []))
          else if includes_str u ''/album/''
          then (ebind (parseAlbumPage E html (JStr u)) (\<lambda>a. Inr (Inr a)), [])
          else (Inl (DisTuneError ''BANDCAMP_PLUGIN_INVALID_URL'' [AStr ''URL must be a track or album'']),
                []))"

definition invalid_url :: "jsval \<Rightarrow> error" where
  "invalid_url url = DisTuneError ''INVALID_TYPE'' [AStr ''Bandcamp URL'', AVal url, AStr ''url'']"

fun resolve :: "env \<Rightarrow> jsval \<Rightarrow> (song + album) io" where
  "resolve E (Some (JStr u)) =
     (if \<not> validate E (Some (JStr u)) then (Inl (invalid_url (Some (JStr u))), [])
      else rethrow ''BANDCAMP_PLUGIN_RESOLVE_ERROR'' (resolve_try E u))"
| "resolve E url = (Inl (invalid_url url), [])"

subsection \<open>Search\<close>

text \<open>
  The guard on \<^verbatim>\<open>limit\<close>:
  \<^verbatim>\<open>typeof limit !== 'number' || limit < 1 || !Number.isInteger(limit)\<close>,
  and the number of elements that \<^verbatim>\<open>slice(0, limit)\<close> keeps at most once the guard is passed.
\<close>

fun invalid_limit :: "json \<Rightarrow> bool" where
  "invalid_limit (JNum (Fin r)) = (r < 1 \<or> of_int \<lfloor>r\<rfloor> \<noteq> r)"
| "invalid_limit j = True"

fun slice_end :: "json \<Rightarrow> nat" where
  "slice_end (JNum (Fin r)) = nat \<lfloor>r\<rfloor>"
| "slice_end j = 0"

definition invalid_arg :: "string \<Rightarrow> jsval \<Rightarrow> string \<Rightarrow> error" where
  "invalid_arg expected got name = DisTuneError ''INVALID_TYPE'' [AStr expected, AVal got, AStr name]"

definition no_result :: "string \<Rightarrow> string \<Rightarrow> error" where
  \<open>no_result q noun =
     DisTuneError ''BANDCAMP_PLUGIN_NO_RESULT''
       [AStr (''Cannot find any "'' @ q @ ''" '' @ noun @ '' on Bandcamp!'')]\<close>

definition search_request :: "string \<Rightarrow> string \<Rightarrow> request" where
  "search_request q kind =
     Request ''POST'' (JStr ''https://bandcamp.com/api/bcsearch_public_api/1/autocomplete_elastic'')
       [(''Content-Type'', ''application/json; charset=UTF-8'')]
       (Some (JObj [(''search_text'', JStr q), (''search_filter'', JStr kind),
                    (''full_page'', JBool False)]))"

text \<open>The callback of the filter on the results: \<^verbatim>\<open>(r) => r.type === kind\<close>.\<close>

definition of_kind :: "string \<Rightarrow> json \<Rightarrow> error + bool" where
  "of_kind kind r = ebind (getprop (Some r) ''type'') (\<lambda>t. Inr (strict_eq t (Some (JStr kind))))"

text \<open>
  The first half of the \<^verbatim>\<open>try\<close> block of \<^verbatim>\<open>searchSongs\<close> (\<open>kind\<close> \<^verbatim>\<open>t\<close>, \<open>noun\<close> \<^verbatim>\<open>tracks\<close>) and of
  \<^verbatim>\<open>searchAlbums\<close> (\<^verbatim>\<open>a\<close>, \<^verbatim>\<open>albums\<close>), which the source has twice: the request, the decoding
  of the answer, the two throws of the no-result error, the filter on the kind.
\<close>

definition search_results :: "env \<Rightarrow> string \<Rightarrow> string \<Rightarrow> string \<Rightarrow> json list io" where
  "search_results E q kind noun =
     (case fetch E (search_request q kind) of
        Inl e \<Rightarrow> Inl e
      | Inr response \<Rightarrow>
          ebind (JSON_parse E (body response))
            (\<lambda>data.
          ebind (getprop (Some data) ''auto'')
            (\<lambda>auto.
          if \<not> truthy (olength (oprop auto ''results'')) then Inl (no_result q noun)
          else
            ebind (as_array (oprop auto ''results''))
              (\<lambda>all_results.
            ebind (filter_js (of_kind kind) all_results)
              (\<lambda>results.
            if \<not> truthy (olength (Some (JArr results))) then Inl (no_result q noun)
            else Inr results)))),
      [Fetch (search_request q kind)])"

text \<open>
  The second half: \<^verbatim>\<open>Promise.all(candidates.map(async (result) => { try ... catch ... }))\<close>
  followed by \<^verbatim>\<open>filter(isTruthy)\<close>. \<open>settle\<close> is the callback with its \<^verbatim>\<open>catch\<close>, which logs
  the error and returns \<^verbatim>\<open>null\<close>. \<^verbatim>\<open>Promise.all\<close> gives the values in the order of the
  candidates. The requests are issued in that order too; the order of the log entries of
  different candidates depends on the network and is not meant by the list.
\<close>

definition settle :: "string \<Rightarrow> ('c \<Rightarrow> 'r option io) \<Rightarrow> 'c \<Rightarrow> 'r option \<times> event list" where
  "settle label attempt c =
     (case attempt c of
        (Inl e, evs) \<Rightarrow> (None, evs @ [ConsoleError label (LError e)])
      | (Inr r, evs) \<Rightarrow> (r, evs))"

definition fan_out :: "string \<Rightarrow> ('c \<Rightarrow> 'r option io) \<Rightarrow> 'c list \<Rightarrow> 'r list io" where
  "fan_out label attempt cs =
     (Inr (List.map_filter fst (map (settle label attempt) cs)),
      concat (map (\<lambda>c. snd (settle label attempt c)) cs))"

text \<open>The \<^verbatim>\<open>try\<close> blocks of the two callbacks.\<close>

definition song_attempt :: "env \<Rightarrow> json \<Rightarrow> song option io" where
  "song_attempt E result =
     (case get result ''item_url_path'' of
        None \<Rightarrow> (Inr None, [])
      | Some trackUrl \<Rightarrow>
          if \<not> truthy (Some trackUrl) then (Inr None, [])
          else io_bind (fetchPage E trackUrl)
                 (\<lambda>html. io_bind (parseTrackPage E html trackUrl) (\<lambda>s. (Inr (Some s), []))))"

definition album_attempt :: "env \<Rightarrow> json \<Rightarrow> album option io" where
  "album_attempt E result =
     (case get result ''item_url_path'' of
        None \<Rightarrow> (Inr None, [])
      | Some albumUrl \<Rightarrow>
          if \<not> truthy (Some albumUrl) then (Inr None, [])
          else io_bind (fetchPage E albumUrl)
                 (\<lambda>html. (ebind (parseAlbumPage E html albumUrl)
                            (\<lambda>a. Inr (Some (a\<lparr>album_artist := None\<rparr>))), [])))"

text \<open>
  \<^verbatim>\<open>searchSongs(query, limit = 10, options)\<close> and \<^verbatim>\<open>searchAlbums(query, limit = 10, options)\<close>.
  An argument that is left out is \<^verbatim>\<open>undefined\<close>, and so is \<open>None\<close>.
\<close>

definition with_default :: "jsval \<Rightarrow> json" where
  "with_default limit = (case limit of None \<Rightarrow> JNum (Fin 10) | Some l \<Rightarrow> l)"

fun searchSongs :: "env \<Rightarrow> jsval \<Rightarrow> jsval \<Rightarrow> song list io" where
  "searchSongs E (Some (JStr q)) limit =
     (if invalid_limit (with_default limit)
      then (Inl (invalid_arg ''natural number'' (Some (with_default limit)) ''limit''), [])
      else rethrow ''BANDCAMP_PLUGIN_SEARCH_ERROR''
             (io_bind (search_results E q ''t'' ''tracks'')
                (\<lambda>results. fan_out ''Error fetching track:'' (song_attempt E)
                              (take (slice_end (with_default limit)) results))))"
| "searchSongs E query limit = (Inl (invalid_arg ''string'' query ''query''), [])"

fun searchAlbums :: "env \<Rightarrow> jsval \<Rightarrow> jsval \<Rightarrow> album list io" where
  "searchAlbums E (Some (JStr q)) limit =
     (if invalid_limit (with_default limit)
      then (Inl (invalid_arg ''natural number'' (Some (with_default limit)) ''limit''), [])
      else rethrow ''BANDCAMP_PLUGIN_SEARCH_ERROR''
             (io_bind (search_results E q ''a'' ''albums'')
                (\<lambda>results. fan_out ''Error fetching album:'' (album_attempt E)
                              (take (slice_end (with_default limit)) results))))"
| "searchAlbums E query limit = (Inl (invalid_arg ''string'' query ''query''), [])"

subsection \<open>Stream URL and related songs\<close>

text \<open>\<^verbatim>\<open>getStreamURL(song)\<close>\<close>

definition getStreamURL :: "song \<Rightarrow> error + string" where
  "getStreamURL song =
     (if \<not> truthy (streamUrl song)
      then Inl (DisTuneError ''BANDCAMP_PLUGIN_INVALID_SONG''
                  [AStr ''Cannot get stream URL from invalid song.''])
      else str_method (streamUrl song)
             (\<lambda>u. if \<not> startsWith u ''http://'' \<and> \<not> startsWith u ''https://''
                  then ''https:'' @ u else u))"

text \<open>
  \<^verbatim>\<open>getRelatedSongs(song)\<close>. \<open>related_track_info\<close> is the object literal \<^verbatim>\<open>trackData\<close>,
  \<open>is_related\<close> the callback of the filter, \<open>related_of_page\<close> the part of the \<^verbatim>\<open>try\<close> block
  after the page is fetched, \<open>getRelatedSongs_try\<close> the whole block.
\<close>

definition related_track_info ::
    "env \<Rightarrow> string \<Rightarrow> json \<Rightarrow> jsval \<Rightarrow> jsval \<Rightarrow> json \<Rightarrow> error + BandcampTrackInfo" where
  "related_track_info E baseUrl tralbumData artist thumbnail trackInfo =
     ebind (track_id_of E trackInfo)
       (\<lambda>i.
     ebind
       (case get trackInfo ''title_link'' of
          None \<Rightarrow> Inr baseUrl
        | Some link \<Rightarrow>
            if truthy (Some link)
            then ebind (toString E link) (\<lambda>slug. Inr (baseUrl @ ''/track/'' @ slug))
            else Inr baseUrl)
       (\<lambda>u.
     Inr \<lparr> t_id = i,
           t_title = get trackInfo ''title'',
           t_artist = artist,
           t_album = oprop (get tralbumData ''current'') ''title'',
           t_duration = or_else (get trackInfo ''duration'') (Some (JNum (Fin 0))),
           t_url = Some (JStr u),
           t_thumbnail = thumbnail,
           t_streamUrl = oprop (get trackInfo ''file'') ''mp3-128'',
           t_trackNumber = get trackInfo ''track_num'' \<rparr>))"

definition is_related :: "song \<Rightarrow> json \<Rightarrow> error + bool" where
  "is_related song t =
     ebind (mp3_128 t)
       (\<lambda>m. Inr (truthy m \<and> \<not> strict_eq (get t ''track_id'') (song_id song)))"

definition related_of_page :: "env \<Rightarrow> song \<Rightarrow> string \<Rightarrow> string \<Rightarrow> error + song list" where
  "related_of_page E song baseUrl html =
     (case match_tralbum html of
        None \<Rightarrow> Inr []
      | Some m \<Rightarrow>
          ebind (JSON_parse E (entity_decode m))
            (\<lambda>tralbumData.
          ebind (getprop (Some tralbumData) ''trackinfo'')
            (\<lambda>ti.
          ebind (as_array ti)
            (\<lambda>trackinfo.
          ebind (filter_js (is_related song) trackinfo)
            (\<lambda>kept.
          (let tracks = take 10 kept;
               artist = or_else (get tralbumData ''artist'') (Some (JStr (extractArtistFromMeta html)));
               thumbnail = or_else (get tralbumData ''artFullsizeUrl'') (get tralbumData ''artThumbURL'')
           in map_js (\<lambda>trackInfo.
                        ebind (related_track_info E baseUrl tralbumData artist thumbnail trackInfo)
                          BandcampSong)
                tracks))))))"

definition getRelatedSongs_try :: "env \<Rightarrow> song \<Rightarrow> song list io" where
  "getRelatedSongs_try E song =
     (case str_method (song_url song) (\<lambda>u. split0 u ''/track/'') of
        Inl e \<Rightarrow> (Inl e, [])
      | Inr baseUrl \<Rightarrow>
          if baseUrl = [] then (Inr [], [])
          else io_bind (fetchPage E (JStr baseUrl))
                 (\<lambda>html. (related_of_page E song baseUrl html, [])))"

definition getRelatedSongs :: "env \<Rightarrow> song \<Rightarrow> song list \<times> event list" where
  "getRelatedSongs E song =
     (if \<not> truthy (song_url song) then ([], [])
      else (case getRelatedSongs_try E song of
              (Inl e, evs) \<Rightarrow> ([], evs @ [ConsoleError ''Error getting related songs:'' (LError e)])
            | (Inr songs, evs) \<Rightarrow> (songs, evs)))"

subsection \<open>Notions of the statements\<close>

text \<open>
  \<open>answers E q kind rs\<close>: the search endpoint answers the request for \<open>q\<close> with a document
  whose \<^verbatim>\<open>auto.results\<close> is the array \<open>rs\<close>, none of its elements \<^verbatim>\<open>null\<close>.
  \<open>candidates kind rs\<close> is the list of the results of the kind, in the order of the
  answer. For the \<^verbatim>\<open>try\<close> block \<open>attempt\<close> of a callback, \<open>succeeded attempt c\<close> says that
  the block returns an entity for the candidate \<open>c\<close> (it neither throws nor returns
  \<^verbatim>\<open>null\<close>), and \<open>parsed attempt cs\<close> is the list of the entities returned for \<open>cs\<close>.
  \<open>has_path c\<close>: the candidate has a URL path fragment, \<^verbatim>\<open>item_url_path\<close>.
\<close>

definition answers :: "env \<Rightarrow> string \<Rightarrow> string \<Rightarrow> json list \<Rightarrow> bool" where
  "answers E q kind rs =
     (case fetch E (search_request q kind) of
        Inl e \<Rightarrow> False
      | Inr response \<Rightarrow>
          (case JSON_parse E (body response) of
             Inl e \<Rightarrow> False
           | Inr data \<Rightarrow>
               oprop (oprop (Some data) ''auto'') ''results'' = Some (JArr rs) \<and> JNull \<notin> set rs))"

definition candidates :: "string \<Rightarrow> json list \<Rightarrow> json list" where
  "candidates kind rs = filter (\<lambda>r. get r ''type'' = Some (JStr kind)) rs"

definition parsed :: "('c \<Rightarrow> 'r option io) \<Rightarrow> 'c list \<Rightarrow> 'r list" where
  "parsed attempt cs =
     List.map_filter (\<lambda>c. case fst (attempt c) of Inl e \<Rightarrow> None | Inr r \<Rightarrow> r) cs"

definition has_path :: "json \<Rightarrow> bool" where
  "has_path c = truthy (get c ''item_url_path'')"

definition succeeded :: "('c \<Rightarrow> 'r option io) \<Rightarrow> 'c \<Rightarrow> bool" where
  "succeeded attempt c = (case fst (attempt c) of Inl e \<Rightarrow> False | Inr r \<Rightarrow> r \<noteq> None)"

text \<open>
  For the album: \<open>stream_of t\<close> is the value of \<^verbatim>\<open>t.file?.['mp3-128']\<close> for an entry \<open>t\<close> of
  \<^verbatim>\<open>trackinfo\<close> that is not \<^verbatim>\<open>null\<close>, and \<open>playable t\<close> says that it is truthy: the entry
  possesses a stream URL. \<open>with_scheme\<close> is the normalisation that the constructor of
  \<^verbatim>\<open>BandcampSong\<close> applies. \<open>entry_ok E t\<close> is the shape of an entry of a decoded record: the
  entry is not \<^verbatim>\<open>null\<close>, its stream URL is a string if it has one, and the runtime converts
  its id and its slug to strings (\<open>converts E v\<close>; \<^verbatim>\<open>null\<close> and \<^verbatim>\<open>undefined\<close> are never
  converted). \<open>built_from t s\<close>: the track \<open>s\<close> has the title, the
  normalised stream URL and the track number of the entry \<open>t\<close>.
\<close>

definition stream_of :: "json \<Rightarrow> jsval" where
  "stream_of t = oprop (get t ''file'') ''mp3-128''"

definition playable :: "json \<Rightarrow> bool" where
  "playable t = truthy (stream_of t)"

definition with_scheme :: "string \<Rightarrow> string" where
  "with_scheme w =
     (if \<not> startsWith w ''http://'' \<and> \<not> startsWith w ''https://'' then ''https:'' @ w else w)"

fun converts :: "env \<Rightarrow> jsval \<Rightarrow> bool" where
  "converts E None = True"
| "converts E (Some JNull) = True"
| "converts E (Some j) = (case toString E j of Inl e \<Rightarrow> False | Inr s \<Rightarrow> True)"

definition entry_ok :: "env \<Rightarrow> json \<Rightarrow> bool" where
  "entry_ok E t =
     (t \<noteq> JNull
      \<and> (case stream_of t of None \<Rightarrow> True | Some (JStr w) \<Rightarrow> True | Some j \<Rightarrow> \<not> truthy (Some j))
      \<and> converts E (get t ''track_id'') \<and> converts E (get t ''title_link''))"

definition built_from :: "json \<Rightarrow> song \<Rightarrow> bool" where
  "built_from t s =
     (song_name s = get t ''title''
      \<and> (case stream_of t of Some (JStr w) \<Rightarrow> streamUrl s = Some (JStr (with_scheme w)) | _ \<Rightarrow> False)
      \<and> trackNumber s = get t ''track_num'')"


text \<open>
  For the proofs about the decoder: the entity of a character, and the encoding that
  replaces the characters of a given list only. \<open>html_encode\<close> is the encoding of all five.
\<close>

definition entity :: "char \<Rightarrow> string" where
  "entity c =
     (if c = CHR 0x22 then ''&quot;''
      else if c = CHR ''&'' then ''&amp;''
      else if c = CHR ''<'' then ''&lt;''
      else if c = CHR ''>'' then ''&gt;''
      else if c = CHR 0x27 then ''&#39;''
      else [c])"

definition encode_only :: "char list \<Rightarrow> string \<Rightarrow> string" where
  "encode_only cs x = concat (map (\<lambda>c. if c \<in> set cs then entity c else [c]) x)"


subsection \<open>An example runtime and network\<close>

text \<open>
  A small world in which the plugin can be run: one band with one album of three tracks
  (the second has no stream), a search that answers the query \<^verbatim>\<open>one\<close> with five results,
  and a runtime that parses the documents of this world, converts strings, natural
  numbers, booleans and \<^verbatim>\<open>null\<close> to strings (and refuses every other value, which this world
  does not hold), and reads plain \<^verbatim>\<open>https\<close> URLs (host and path, nothing else).
\<close>

fun decimal :: "nat \<Rightarrow> string" where
  "decimal n =
     (if n < 10 then [''0123456789'' ! n]
      else decimal (n div 10) @ [''0123456789'' ! (n mod 10)])"

fun example_toString :: "json \<Rightarrow> error + string" where
  "example_toString (JStr s) = Inr s"
| "example_toString (JNum (Fin r)) =
     (if 0 \<le> r \<and> of_int \<lfloor>r\<rfloor> = r then Inr (decimal (nat \<lfloor>r\<rfloor>)) else Inl TypeError)"
| "example_toString JNull = Inr ''null''"
| "example_toString (JBool b) = Inr (if b then ''true'' else ''false'')"
| "example_toString j = Inl TypeError"

definition example_new_URL :: "string \<Rightarrow> error + url" where
  "example_new_URL s =
     (let rest = drop 8 s;
          host = takeWhile (\<lambda>c. c \<noteq> CHR ''/'') rest;
          path = dropWhile (\<lambda>c. c \<noteq> CHR ''/'') rest
      in if startsWith s ''https://'' \<and> host \<noteq> []
         then Inr \<lparr> hostname = host, pathname = (if path = [] then ''/'' else path) \<rparr>
         else Inl TypeError)"

definition track_one_text :: string where
  \<open>track_one_text =
     ''{"trackinfo":[{"track_id":1,"title":"One","title_link":"one","file":{"mp3-128":"//s/1"}}]}''\<close>

definition entry_one :: json where
  "entry_one =
     JObj [(''track_id'', JNum (Fin 1)), (''title'', JStr ''One''), (''title_link'', JStr ''one''),
           (''file'', JObj [(''mp3-128'', JStr ''//s/1'')])]"

definition entry_two :: json where
  "entry_two = JObj [(''track_id'', JNum (Fin 2)), (''title'', JStr ''Two''), (''file'', JNull)]"

definition entry_three :: json where
  "entry_three =
     JObj [(''track_id'', JNum (Fin 3)), (''title'', JStr ''Three''), (''title_link'', JStr ''three''),
           (''file'', JObj [(''mp3-128'', JStr ''https://s/3'')])]"

definition track_one_json :: json where
  "track_one_json = JObj [(''trackinfo'', JArr [entry_one])]"

definition album_text :: string where
  \<open>album_text =
     ''{"artist":"Band","current":{"title":"LP","id":7},"trackinfo":[{"track_id":1,"title":"One","title_link":"one","file":{"mp3-128":"//s/1"}},{"track_id":2,"title":"Two","file":null},{"track_id":3,"title":"Three","title_link":"three","file":{"mp3-128":"https://s/3"}}]}''\<close>

definition album_json :: json where
  "album_json =
     JObj [(''artist'', JStr ''Band''),
           (''current'', JObj [(''title'', JStr ''LP''), (''id'', JNum (Fin 7))]),
           (''trackinfo'', JArr [entry_one, entry_two, entry_three])]"

definition search_text :: string where
  \<open>search_text =
     ''{"auto":{"results":[{"type":"t","item_url_path":"https://a.bandcamp.com/track/one"},{"type":"t","item_url_path":"https://a.bandcamp.com/track/gone"},{"type":"a","item_url_path":"https://a.bandcamp.com/album/lp"},{"type":"t"},{"type":"t","item_url_path":"https://a.bandcamp.com/track/one"}]}}''\<close>

definition candidate :: "string \<Rightarrow> string \<Rightarrow> json" where
  "candidate kind u = JObj [(''type'', JStr kind), (''item_url_path'', JStr u)]"

definition example_results :: "json list" where
  "example_results =
     [candidate ''t'' ''https://a.bandcamp.com/track/one'',
      candidate ''t'' ''https://a.bandcamp.com/track/gone'',
      candidate ''a'' ''https://a.bandcamp.com/album/lp'',
      JObj [(''type'', JStr ''t'')],
      candidate ''t'' ''https://a.bandcamp.com/track/one'']"

definition search_json :: json where
  "search_json = JObj [(''auto'', JObj [(''results'', JArr example_results)])]"

definition nothing_text :: string where
  \<open>nothing_text = ''{"auto":{"results":[{"type":"b"}]}}''\<close>

definition nothing_json :: json where
  "nothing_json = JObj [(''auto'', JObj [(''results'', JArr [JObj [(''type'', JStr ''b'')]])])]"

definition example_JSON_parse :: "string \<Rightarrow> error + json" where
  "example_JSON_parse s =
     (case map_of [(track_one_text, track_one_json), (album_text, album_json),
                   (search_text, search_json), (nothing_text, nothing_json)] s of
        Some j \<Rightarrow> Inr j
      | None \<Rightarrow> Inl SyntaxError)"

definition page_of :: "string \<Rightarrow> string" where
  \<open>page_of doc = ''<html><div data-tralbum="'' @ html_encode doc @ ''"></div></html>''\<close>

definition found :: "string \<Rightarrow> response" where
  "found b = \<lparr> ok = True, status = 200, statusText = ''OK'', body = b \<rparr>"

definition not_found :: response where
  "not_found = \<lparr> ok = False, status = 404, statusText = ''Not Found'', body = [] \<rparr>"

fun example_fetch :: "request \<Rightarrow> error + response" where
  "example_fetch (Request m (JStr u) hs b) =
     (if m = ''POST''
      then (if oprop b ''search_text'' = Some (JStr ''one'') then Inr (found search_text)
            else Inr (found nothing_text))
      else (case map_of [(''https://a.bandcamp.com/track/one'', found (page_of track_one_text)),
                         (''https://a.bandcamp.com/album/lp'', found (page_of album_text)),
                         (''https://a.bandcamp.com'', found (page_of album_text))] u of
              Some r \<Rightarrow> Inr r
            | None \<Rightarrow> Inr not_found))"
| "example_fetch r = Inl TypeError"

definition example_env :: env where
  "example_env =
     \<lparr> fetch = example_fetch, JSON_parse = example_JSON_parse,
       new_URL = example_new_URL, toString = example_toString \<rparr>"

definition example_info :: "string \<Rightarrow> BandcampTrackInfo" where
  "example_info u =
     \<lparr> t_id = Some (JStr ''1''), t_title = Some (JStr ''One''), t_artist = Some (JStr ''Band''),
       t_album = None, t_duration = Some (JNum (Fin 200)),
       t_url = Some (JStr ''https://a.bandcamp.com/track/one''), t_thumbnail = None,
       t_streamUrl = Some (JStr u), t_trackNumber = None \<rparr>"

definition example_song :: "string \<Rightarrow> song" where
  "example_song u =
     \<lparr> song_source = ''bandcamp'', song_id = Some (JStr ''1''), song_name = Some (JStr ''One''),
       song_url = Some (JStr ''https://a.bandcamp.com/track/one''), song_thumbnail = None,
       song_duration = Some (JNum (Fin 200)), uploader_name = Some (JStr ''Band''),
       uploader_url = ''https://a.bandcamp.com'', streamUrl = Some (JStr u),
       trackNumber = None \<rparr>"

definition example_track :: "string \<Rightarrow> string \<Rightarrow> string \<Rightarrow> string \<Rightarrow> string \<Rightarrow> song" where
  "example_track i name slug artist stream =
     \<lparr> song_source = ''bandcamp'', song_id = Some (JStr i), song_name = Some (JStr name),
       song_url = Some (JStr (''https://a.bandcamp.com/track/'' @ slug)), song_thumbnail = None,
       song_duration = Some (JNum (Fin 0)), uploader_name = Some (JStr artist),
       uploader_url = ''https://a.bandcamp.com'', streamUrl = Some (JStr stream),
       trackNumber = None \<rparr>"

definition example_album :: "jsval \<Rightarrow> album" where
  "example_album artist =
     \<lparr> album_source = ''bandcamp'', album_id = Some (JStr ''7''), album_name = Some (JStr ''LP''),
       album_artist = artist, album_url = Some (JStr ''https://a.bandcamp.com/album/lp''),
       album_thumbnail = None,
       album_songs = [example_track ''1'' ''One'' ''one'' ''Band'' ''https://s/1'',
                      example_track ''3'' ''Three'' ''three'' ''Band'' ''https://s/3''] \<rparr>"


section \<open>Properties\<close>

declare decimal.simps [simp del]

subsection \<open>Entity decoding\<close>

lemma encode_only_Nil [simp]: "encode_only cs [] = []"
  by (simp add: encode_only_def)

lemma encode_only_Cons [simp]:
  "encode_only cs (c # x) = (if c \<in> set cs then entity c else [c]) @ encode_only cs x"
  by (simp add: encode_only_def)

lemma html_encode_encode_only:
  "html_encode x = encode_only [CHR 0x22, CHR ''&'', CHR ''<'', CHR ''>'', CHR 0x27] x"
  by (induction x) (auto simp: entity_def)

lemma encode_only_none: "encode_only [] x = x"
  by (induction x) simp_all

lemma replace_g_skip:
  "hd pat \<noteq> d \<Longrightarrow> replace_g pat rep (d # s) = d # replace_g pat rep s"
  by (cases pat) (simp_all add: startsWith_def)

lemma replace_g_hit:
  "pat \<noteq> [] \<Longrightarrow> replace_g pat rep (pat @ s) = rep @ replace_g pat rep s"
  by (cases pat) (simp_all add: startsWith_def)

lemma pass_quot:
  "replace_g ''&quot;'' [CHR 0x22] (encode_only [CHR 0x22, CHR ''&'', CHR ''<'', CHR ''>'', CHR 0x27] x)
     = encode_only [CHR ''&'', CHR ''<'', CHR ''>'', CHR 0x27] x"
  by (induction x) (auto simp: entity_def startsWith_def replace_g_skip)

lemma pass_amp:
  "CHR ''&'' \<notin> set x \<Longrightarrow>
   replace_g ''&amp;'' ''&'' (encode_only [CHR ''&'', CHR ''<'', CHR ''>'', CHR 0x27] x)
     = encode_only [CHR ''<'', CHR ''>'', CHR 0x27] x"
  by (induction x) (auto simp: entity_def startsWith_def replace_g_skip)

lemma pass_lt:
  "CHR ''&'' \<notin> set x \<Longrightarrow>
   replace_g ''&lt;'' ''<'' (encode_only [CHR ''<'', CHR ''>'', CHR 0x27] x)
     = encode_only [CHR ''>'', CHR 0x27] x"
  by (induction x) (auto simp: entity_def startsWith_def replace_g_skip)

lemma pass_gt:
  "CHR ''&'' \<notin> set x \<Longrightarrow>
   replace_g ''&gt;'' ''>'' (encode_only [CHR ''>'', CHR 0x27] x) = encode_only [CHR 0x27] x"
  by (induction x) (auto simp: entity_def startsWith_def replace_g_skip)

lemma pass_apos:
  "CHR ''&'' \<notin> set x \<Longrightarrow>
   replace_g ''&#39;'' [CHR 0x27] (encode_only [CHR 0x27] x) = encode_only [] x"
  by (induction x) (auto simp: entity_def startsWith_def replace_g_skip)

text \<open>
  The decoder reverses the encoding of every text without an ampersand.
\<close>

lemma entity_decode_html_encode:
  "CHR ''&'' \<notin> set x \<Longrightarrow> entity_decode (html_encode x) = x"
  by (simp add: entity_decode_def html_encode_encode_only pass_quot pass_amp pass_lt pass_gt
        pass_apos encode_only_none)

text \<open>
  C3. The specification states that for every structured text \<open>x\<close>, decoding the
  HTML-entity encoding of \<open>x\<close> gives \<open>x\<close> back. The decoder replaces \<^verbatim>\<open>&amp;\<close> before \<^verbatim>\<open>&lt;\<close>, \<^verbatim>\<open>&gt;\<close> and \<^verbatim>\<open>&#39;\<close>, so a text that
  itself holds one of these three entities is decoded twice. The JSON document below has
  the title \<^verbatim>\<open>a &lt; b\<close>; its encoding is decoded to a document with the title \<^verbatim>\<open>a < b\<close>.
\<close>

theorem entity_decode_decodes_twice:
  \<open>html_encode ''{"title":"a &lt; b"}'' = ''{&quot;title&quot;:&quot;a &amp;lt; b&quot;}''
   \<and> entity_decode (html_encode ''{"title":"a &lt; b"}'') = ''{"title":"a < b"}''
   \<and> entity_decode (html_encode ''{"title":"a &lt; b"}'') \<noteq> ''{"title":"a &lt; b"}''\<close>
  by (simp add: entity_decode_def startsWith_def)

subsection \<open>Stream URLs\<close>

lemma startsWith_append: "startsWith (p @ s) (p @ q) = startsWith s q"
  by (simp add: startsWith_def)

text \<open>
  What holds of \<^verbatim>\<open>getStreamURL\<close>: a stored stream URL that begins with \<^verbatim>\<open>http://\<close> or
  \<^verbatim>\<open>https://\<close> is returned unchanged, so normalising the result again changes nothing, and
  a protocol-relative one (it begins with \<^verbatim>\<open>//\<close>, the form the site emits) is returned with
  the scheme, beginning with \<^verbatim>\<open>https://\<close>.
\<close>

lemma getStreamURL_schemed:
  assumes "streamUrl s = Some (JStr u)"
  shows "(startsWith u ''http://'' \<or> startsWith u ''https://'' \<longrightarrow>
            getStreamURL s = Inr u \<and> getStreamURL (s\<lparr>streamUrl := Some (JStr u)\<rparr>) = Inr u)
       \<and> (startsWith u ''//'' \<longrightarrow>
            getStreamURL s = Inr (''https:'' @ u) \<and> startsWith (''https:'' @ u) ''https://'')"
proof -
  have ne: "startsWith u ''http://'' \<or> startsWith u ''https://'' \<or> startsWith u ''//'' \<Longrightarrow> u \<noteq> []"
    by (auto simp: startsWith_def)
  have rel: "startsWith u ''//'' \<Longrightarrow> \<not> startsWith u ''http://'' \<and> \<not> startsWith u ''https://''"
    by (cases u) (auto simp: startsWith_def)
  have "startsWith (''https:'' @ u) (''https:'' @ ''//'') = startsWith u ''//''"
    by (rule startsWith_append)
  then have pre: "startsWith (''https:'' @ u) ''https://'' = startsWith u ''//''"
    by simp
  show ?thesis
    using assms ne rel pre by (auto simp: getStreamURL_def)
qed

lemma getStreamURL_examples:
  "getStreamURL (example_song ''//s/1'') = Inr ''https://s/1''
   \<and> getStreamURL (example_song ''https://s/1'') = Inr ''https://s/1''"
proof -
  have a: "streamUrl (example_song u) = Some (JStr u)" for u
    by (simp add: example_song_def)
  show ?thesis
    using getStreamURL_schemed [OF a, of "''//s/1''"]
      getStreamURL_schemed [OF a, of "''https://s/1''"]
    by (simp add: startsWith_def)
qed

text \<open>
  C5. The specification states that \<^verbatim>\<open>getStreamURL\<close> returns a stored stream URL that
  begins with \<^verbatim>\<open>http://\<close> or \<^verbatim>\<open>https://\<close> unchanged, and that for a stored stream URL
  without such a prefix it returns a value that begins with \<^verbatim>\<open>https://\<close>; the comment in
  the method says the same (\<^verbatim>\<open>Ensure the URL starts with https://\<close>). The method prepends
  \<^verbatim>\<open>https:\<close> and no slashes, so the second half fails for a URL that does not begin with
  \<^verbatim>\<open>//\<close>. The constructor does the same: the track below is built from the stream URL \<^verbatim>\<open>x\<close>
  and stores \<^verbatim>\<open>https:x\<close>, which has neither prefix, and \<^verbatim>\<open>getStreamURL\<close> returns
  \<^verbatim>\<open>https:https:x\<close>, which does not begin with \<^verbatim>\<open>https://\<close>.
\<close>

theorem getStreamURL_not_https:
  "map_sum id streamUrl (BandcampSong (example_info ''x'')) = Inr (Some (JStr ''https:x''))
   \<and> \<not> startsWith ''https:x'' ''http://'' \<and> \<not> startsWith ''https:x'' ''https://''
   \<and> ebind (BandcampSong (example_info ''x'')) getStreamURL = Inr ''https:https:x''
   \<and> \<not> startsWith ''https:https:x'' ''https://''"
  by (simp add: BandcampSong_def example_info_def getStreamURL_def ebind_def startsWith_def)

subsection \<open>The URL classifier\<close>

text \<open>
  C7. For every input string, \<^verbatim>\<open>validate\<close> returns true exactly when the string parses as a
  URL whose host ends with \<^verbatim>\<open>.bandcamp.com\<close> and whose path contains \<^verbatim>\<open>/track/\<close> or \<^verbatim>\<open>/album/\<close>;
  for every other string, also one that the URL constructor rejects, it returns false.
  It never raises: it is a total function into the booleans.
\<close>

theorem validate_iff:
  "validate E (Some (JStr u)) \<longleftrightarrow>
     (\<exists>parsed. new_URL E u = Inr parsed
        \<and> endsWith (hostname parsed) ''.bandcamp.com''
        \<and> (includes_str (pathname parsed) ''/track/'' \<or> includes_str (pathname parsed) ''/album/''))"
  by (cases "new_URL E u") (auto simp: validate_try_def ebind_def)

theorem validate_iff_witness:
  "validate example_env (Some (JStr ''https://a.bandcamp.com/track/one''))
   \<and> validate example_env (Some (JStr ''https://a.bandcamp.com/album/lp''))
   \<and> \<not> validate example_env (Some (JStr ''https://a.bandcamp.com/music''))
   \<and> \<not> validate example_env (Some (JStr ''https://bandcamp.com/track/one''))
   \<and> \<not> validate example_env (Some (JStr ''https://notbandcamp.com/track/one''))
   \<and> \<not> validate example_env (Some (JStr ''not a url''))"
  unfolding validate_iff
  by (simp add: example_env_def example_new_URL_def startsWith_def endsWith_def)

subsection \<open>The guard on the limit\<close>

lemma invalid_limit_iff:
  "invalid_limit l \<longleftrightarrow> \<not> (\<exists>n::nat. 1 \<le> n \<and> l = JNum (Fin (of_nat n)))"
proof (cases l)
  case (JNum x)
  show ?thesis
  proof (cases x)
    case (Fin r)
    have "(1 \<le> r \<and> of_int \<lfloor>r\<rfloor> = r) \<longleftrightarrow> (\<exists>n::nat. 1 \<le> n \<and> r = of_nat n)"
    proof
      assume h: "1 \<le> r \<and> of_int \<lfloor>r\<rfloor> = r"
      then have f: "1 \<le> \<lfloor>r\<rfloor>" by linarith
      then have "of_nat (nat \<lfloor>r\<rfloor>) = (of_int \<lfloor>r\<rfloor> :: rat)"
        by (simp add: of_nat_nat)
      with h have "r = of_nat (nat \<lfloor>r\<rfloor>)" by (simp only:)
      moreover have "1 \<le> nat \<lfloor>r\<rfloor>" using f by linarith
      ultimately show "\<exists>n::nat. 1 \<le> n \<and> r = of_nat n" by blast
    next
      assume "\<exists>n::nat. 1 \<le> n \<and> r = of_nat n"
      then obtain n :: nat where n: "1 \<le> n" "r = of_nat n" by blast
      have "of_int \<lfloor>rat_of_nat n\<rfloor> = rat_of_nat n"
        by (simp only: floor_of_nat of_int_of_nat_eq)
      moreover have "1 \<le> rat_of_nat n" using n(1) by simp
      ultimately show "1 \<le> r \<and> of_int \<lfloor>r\<rfloor> = r" using n(2) by (simp only:)
    qed
    then show ?thesis using JNum Fin by auto
  qed (simp_all add: JNum)
qed simp_all

text \<open>
  C8. For every limit that is given and is not a positive integer (not a number, not an
  integer, or less than 1), \<^verbatim>\<open>searchSongs\<close> and \<^verbatim>\<open>searchAlbums\<close> throw the invalid-argument error
  (\<^verbatim>\<open>INVALID_TYPE\<close>), and the list of events is empty: no search request and no page fetch
  was issued. With a query that is a string the error is the one about the limit; the
  last two conjuncts are for any query.
\<close>

theorem search_rejects_limit:
  assumes "\<not> (\<exists>n::nat. 1 \<le> n \<and> limit = JNum (Fin (of_nat n)))"
  shows "searchSongs E (Some (JStr q)) (Some limit)
           = (Inl (DisTuneError ''INVALID_TYPE''
                     [AStr ''natural number'', AVal (Some limit), AStr ''limit'']), [])
       \<and> searchAlbums E (Some (JStr q)) (Some limit)
           = (Inl (DisTuneError ''INVALID_TYPE''
                     [AStr ''natural number'', AVal (Some limit), AStr ''limit'']), [])
       \<and> (\<exists>args. searchSongs E query (Some limit) = (Inl (DisTuneError ''INVALID_TYPE'' args), []))
       \<and> (\<exists>args. searchAlbums E query (Some limit) = (Inl (DisTuneError ''INVALID_TYPE'' args), []))"
proof -
  have inv: "invalid_limit (with_default (Some limit))"
    using assms by (simp add: invalid_limit_iff with_default_def)
  have s: "\<exists>args. searchSongs E query (Some limit) = (Inl (DisTuneError ''INVALID_TYPE'' args), [])"
    using inv
    by (cases "(E, query, Some limit)" rule: searchSongs.cases) (simp_all add: invalid_arg_def)
  have a: "\<exists>args. searchAlbums E query (Some limit) = (Inl (DisTuneError ''INVALID_TYPE'' args), [])"
    using inv
    by (cases "(E, query, Some limit)" rule: searchAlbums.cases) (simp_all add: invalid_arg_def)
  show ?thesis
    using inv s a by (simp add: invalid_arg_def with_default_def)
qed

theorem search_rejects_limit_witness:
  "searchSongs example_env (Some (JStr ''one'')) (Some (JNum (Fin 0)))
     = (Inl (DisTuneError ''INVALID_TYPE''
               [AStr ''natural number'', AVal (Some (JNum (Fin 0))), AStr ''limit'']), [])
   \<and> searchAlbums example_env (Some (JStr ''one'')) (Some (JNum (Fin (3 / 2))))
     = (Inl (DisTuneError ''INVALID_TYPE''
               [AStr ''natural number'', AVal (Some (JNum (Fin (3 / 2)))), AStr ''limit'']), [])
   \<and> searchSongs example_env (Some (JStr ''one'')) (Some (JStr ''10''))
     = (Inl (DisTuneError ''INVALID_TYPE''
               [AStr ''natural number'', AVal (Some (JStr ''10'')), AStr ''limit'']), [])
   \<and> searchAlbums example_env (Some (JStr ''one'')) (Some (JNum NaN))
     = (Inl (DisTuneError ''INVALID_TYPE''
               [AStr ''natural number'', AVal (Some (JNum NaN)), AStr ''limit'']), [])"
proof -
  have a: "invalid_limit (JNum (Fin 0))" by simp
  have b: "invalid_limit (JNum (Fin (3 / 2)))" by code_simp
  have c: "invalid_limit (JStr ''10'')" by simp
  have d: "invalid_limit (JNum NaN)" by simp
  show ?thesis
    using search_rejects_limit [OF a [unfolded invalid_limit_iff], of example_env "''one''"]
      search_rejects_limit [OF b [unfolded invalid_limit_iff], of example_env "''one''"]
      search_rejects_limit [OF c [unfolded invalid_limit_iff], of example_env "''one''"]
      search_rejects_limit [OF d [unfolded invalid_limit_iff], of example_env "''one''"]
    by blast
qed

subsection \<open>Events and rethrown errors\<close>

lemma snd_fetchPage: "snd (fetchPage E u) = [Fetch (page_request u)]"
  by (simp add: fetchPage_def)

lemma io_bind_events:
  "snd (io_bind m f) = snd m @ (case fst m of Inl e \<Rightarrow> [] | Inr x \<Rightarrow> snd (f x))"
  by (cases m; cases "fst m") (auto simp: io_bind_def split: prod.splits)

lemma snd_rethrow: "snd (rethrow c m) = snd m"
  by (cases m; cases "fst m") (auto simp: rethrow_def)

lemma fst_rethrow:
  "fst (rethrow c m) =
     (case fst m of Inl e \<Rightarrow> Inl (DisTuneError c [AMessageOf e]) | Inr x \<Rightarrow> Inr x)"
  by (cases m; cases "fst m") (auto simp: rethrow_def)

lemma resolve_try_events: "\<exists>evs. snd (resolve_try E u) = Fetch (page_request (JStr u)) # evs"
  by (simp add: resolve_try_def io_bind_events snd_fetchPage)

lemma ex_validate:
  "validate example_env (Some (JStr ''https://a.bandcamp.com/track/gone''))"
  "validate example_env (Some (JStr ''https://a.bandcamp.com/track/one''))"
  "\<not> validate example_env (Some (JStr ''not a url''))"
  by (simp_all add: validate_try_def ebind_def example_env_def example_new_URL_def
        startsWith_def endsWith_def)

lemma ex_fetch_gone:
  "fetchPage example_env (JStr ''https://a.bandcamp.com/track/gone'')
     = (Inl (Error ''Failed to fetch page: 404 Not Found''),
        [Fetch (page_request (JStr ''https://a.bandcamp.com/track/gone''))])"
  by (simp add: fetchPage_def example_env_def page_request_def not_found_def ebind_def
        decimal.simps)

subsection \<open>The pages of the example world\<close>

lemma match_quoted_skip:
  "\<not> startsWith (x # ys) pre \<Longrightarrow> match_quoted pre (x # ys) = match_quoted pre ys"
  by (simp add: Let_def)

lemma match_quoted_other:
  "c \<notin> set xs \<Longrightarrow> match_quoted (c # p) (xs @ ys) = match_quoted (c # p) ys"
  by (induction xs) (auto simp: Let_def startsWith_def)

lemma match_quoted_here:
  assumes "pre \<noteq> []" and "v \<noteq> []" and "CHR 0x22 \<notin> set v"
  shows "match_quoted pre (pre @ v @ CHR 0x22 # rest) = Some v"
proof -
  obtain c cs where pre: "pre @ v @ CHR 0x22 # rest = c # cs"
    using assms(1) by (cases pre) auto
  have t: "takeWhile (\<lambda>x. x \<noteq> CHR 0x22) (v @ CHR 0x22 # rest) = v"
    using assms(3) by (auto simp: takeWhile_tail takeWhile_eq_all_conv)
  have d: "dropWhile (\<lambda>x. x \<noteq> CHR 0x22) (v @ CHR 0x22 # rest) = CHR 0x22 # rest"
    using assms(3) by (auto simp: dropWhile_append3)
  have s: "startsWith (pre @ v @ CHR 0x22 # rest) pre"
    by (simp add: startsWith_def)
  note e = match_quoted.simps(2) [of pre c cs, unfolded pre [symmetric]]
  show ?thesis
    using t d s assms(2) by (simp add: e Let_def)
qed

lemma html_encode_chars:
  "CHR 0x22 \<notin> set (html_encode x)" "CHR ''<'' \<notin> set (html_encode x)"
  by (induction x) auto

lemma html_encode_Nil_iff: "html_encode x = [] \<longleftrightarrow> x = []"
  by (cases x) auto

lemma match_tralbum_page:
  assumes "doc \<noteq> []"
  shows "match_tralbum (page_of doc) = Some (html_encode doc)"
proof -
  have h: \<open>match_quoted ''data-tralbum="''
             (''data-tralbum="'' @ html_encode doc @ CHR 0x22 # ''></div></html>'')
           = Some (html_encode doc)\<close>
    by (rule match_quoted_here) (simp_all add: html_encode_chars html_encode_Nil_iff assms)
  show ?thesis
    unfolding match_tralbum_def page_of_def using h
    by (simp add: match_quoted_skip startsWith_def del: match_quoted.simps)
qed

lemma no_meta_page:
  "extractArtistFromMeta (page_of doc) = ''Unknown Artist''"
  "extractThumbnailFromMeta (page_of doc) = None"
  unfolding extractArtistFromMeta_def extractThumbnailFromMeta_def page_of_def
  by (simp_all add: match_quoted_skip match_quoted_other html_encode_chars startsWith_def
        del: match_quoted.simps(2))

lemma ex_parse:
  "example_JSON_parse track_one_text = Inr track_one_json"
  "example_JSON_parse album_text = Inr album_json"
  "example_JSON_parse search_text = Inr search_json"
  "example_JSON_parse nothing_text = Inr nothing_json"
  by (simp_all add: example_JSON_parse_def track_one_text_def album_text_def search_text_def
        nothing_text_def)

lemma ex_texts:
  "track_one_text \<noteq> []" "CHR ''&'' \<notin> set track_one_text"
  "album_text \<noteq> []" "CHR ''&'' \<notin> set album_text"
  by (simp_all add: track_one_text_def album_text_def)

lemma ex_extract:
  "extract_tralbum example_env m (page_of track_one_text) = Inr track_one_json"
  "extract_tralbum example_env m (page_of album_text) = Inr album_json"
  by (simp_all add: extract_tralbum_def match_tralbum_page entity_decode_html_encode ex_texts
        example_env_def ex_parse)

lemma ex_toString:
  "toString example_env (JNum (Fin 1)) = Inr ''1''"
  "toString example_env (JNum (Fin 3)) = Inr ''3''"
  "toString example_env (JNum (Fin 7)) = Inr ''7''"
  "toString example_env (JStr s) = Inr s"
  by (simp_all add: example_env_def decimal.simps)

lemma ex_parseTrackPage:
  "parseTrackPage example_env (page_of track_one_text) (JStr ''https://a.bandcamp.com/track/one'')
     = (Inr (example_track ''1'' ''One'' ''one'' ''Unknown Artist'' ''https://s/1''), [])"
  by (simp add: parseTrackPage_def ex_extract track_one_json_def entry_one_def track_page_info_def
        track_id_of_def ex_toString ebind_def or_else_def no_meta_page BandcampSong_def
        startsWith_def example_track_def Let_def)

lemma ex_parseAlbumPage:
  "parseAlbumPage example_env (page_of album_text) (JStr ''https://a.bandcamp.com/album/lp'')
     = Inr (example_album (Some (JStr ''Band'')))"
  by (simp add: parseAlbumPage_def ex_extract assemble_album_def album_json_def entry_one_def
        entry_two_def entry_three_def has_stream_def mp3_128_def album_track_info_def
        track_id_of_def ex_toString ebind_def or_else_def no_meta_page BandcampAlbum_def
        BandcampSong_def startsWith_def example_track_def example_album_def Let_def)

lemma ex_fetchPage:
  "fetchPage example_env (JStr ''https://a.bandcamp.com/track/one'')
     = (Inr (page_of track_one_text), [Fetch (page_request (JStr ''https://a.bandcamp.com/track/one''))])"
  "fetchPage example_env (JStr ''https://a.bandcamp.com/album/lp'')
     = (Inr (page_of album_text), [Fetch (page_request (JStr ''https://a.bandcamp.com/album/lp''))])"
  "fetchPage example_env (JStr ''https://a.bandcamp.com'')
     = (Inr (page_of album_text), [Fetch (page_request (JStr ''https://a.bandcamp.com''))])"
  by (simp_all add: fetchPage_def example_env_def page_request_def found_def)

lemma ex_answers:
  "answers example_env ''one'' ''t'' example_results"
  "answers example_env ''one'' ''a'' example_results"
  "answers example_env ''nothing'' ''t'' [JObj [(''type'', JStr ''b'')]]"
  "answers example_env ''nothing'' ''a'' [JObj [(''type'', JStr ''b'')]]"
  by (simp_all add: answers_def example_env_def search_request_def found_def ex_parse
        search_json_def nothing_json_def example_results_def candidate_def)

lemma ex_candidates:
  "candidates ''t'' example_results =
     [candidate ''t'' ''https://a.bandcamp.com/track/one'',
      candidate ''t'' ''https://a.bandcamp.com/track/gone'',
      JObj [(''type'', JStr ''t'')],
      candidate ''t'' ''https://a.bandcamp.com/track/one'']"
  "candidates ''a'' example_results = [candidate ''a'' ''https://a.bandcamp.com/album/lp'']"
  "candidates ''t'' [JObj [(''type'', JStr ''b'')]] = []"
  "candidates ''a'' [JObj [(''type'', JStr ''b'')]] = []"
  by (simp_all add: candidates_def example_results_def candidate_def)

lemma ex_attempts:
  "song_attempt example_env (candidate ''t'' ''https://a.bandcamp.com/track/one'')
     = (Inr (Some (example_track ''1'' ''One'' ''one'' ''Unknown Artist'' ''https://s/1'')),
        [Fetch (page_request (JStr ''https://a.bandcamp.com/track/one''))])"
  "song_attempt example_env (candidate ''t'' ''https://a.bandcamp.com/track/gone'')
     = (Inl (Error ''Failed to fetch page: 404 Not Found''),
        [Fetch (page_request (JStr ''https://a.bandcamp.com/track/gone''))])"
  "song_attempt example_env (JObj [(''type'', JStr ''t'')]) = (Inr None, [])"
  "album_attempt example_env (candidate ''a'' ''https://a.bandcamp.com/album/lp'')
     = (Inr (Some (example_album None)),
        [Fetch (page_request (JStr ''https://a.bandcamp.com/album/lp''))])"
  by (simp_all add: song_attempt_def album_attempt_def candidate_def ex_fetchPage ex_fetch_gone
        io_bind_def ex_parseTrackPage ex_parseAlbumPage ebind_def example_album_def)

subsection \<open>Errors of \<^verbatim>\<open>resolve\<close>\<close>

text \<open>
  C10. For every URL that fails classification, \<^verbatim>\<open>resolve\<close> throws the invalid-argument
  error itself, not wrapped, and the list of events is empty: nothing was fetched. For a
  URL that passes, the page is fetched first, and every error that \<^verbatim>\<open>resolve\<close> throws is the
  resolve error of the plugin carrying the message of an error thrown by the steps after
  the validation. So the resolve-error shape is carried by the errors of those steps only.
\<close>

theorem resolve_errors:
  "(\<not> validate E url \<longrightarrow>
      resolve E url
        = (Inl (DisTuneError ''INVALID_TYPE'' [AStr ''Bandcamp URL'', AVal url, AStr ''url'']), []))
   \<and> (validate E url \<longrightarrow>
        (\<exists>u evs. url = Some (JStr u)
           \<and> snd (resolve E url) = Fetch (page_request (JStr u)) # evs
           \<and> (\<forall>e. fst (resolve E url) = Inl e \<longrightarrow>
                 (\<exists>cause. fst (resolve_try E u) = Inl cause
                    \<and> e = DisTuneError ''BANDCAMP_PLUGIN_RESOLVE_ERROR'' [AMessageOf cause]))))"
proof (cases "(E, url)" rule: resolve.cases)
  case (1 E' u)
  then have [simp]: "url = Some (JStr u)" "E' = E" by simp_all
  show ?thesis
    using resolve_try_events [of E u]
    by (auto simp: invalid_url_def snd_rethrow fst_rethrow split: sum.splits)
qed (simp_all add: invalid_url_def)

theorem resolve_errors_witness:
  "resolve example_env (Some (JStr ''not a url''))
     = (Inl (DisTuneError ''INVALID_TYPE''
               [AStr ''Bandcamp URL'', AVal (Some (JStr ''not a url'')), AStr ''url'']), [])
   \<and> resolve example_env (Some (JStr ''https://a.bandcamp.com/track/gone''))
     = (Inl (DisTuneError ''BANDCAMP_PLUGIN_RESOLVE_ERROR''
               [AMessageOf (Error ''Failed to fetch page: 404 Not Found'')]),
        [Fetch (page_request (JStr ''https://a.bandcamp.com/track/gone''))])"
proof -
  have t: "resolve_try example_env ''https://a.bandcamp.com/track/gone''
             = (Inl (Error ''Failed to fetch page: 404 Not Found''),
                [Fetch (page_request (JStr ''https://a.bandcamp.com/track/gone''))])"
    by (simp add: resolve_try_def ex_fetch_gone io_bind_def)
  show ?thesis
    using resolve_errors [of example_env "Some (JStr ''not a url'')"]
      resolve_errors [of example_env "Some (JStr ''https://a.bandcamp.com/track/gone'')"]
      ex_validate t
    by (simp add: rethrow_def)
qed

subsection \<open>Search\<close>

lemma strict_eq_str: "strict_eq v (Some (JStr k)) \<longleftrightarrow> v = Some (JStr k)"
  by (cases "(v, Some (JStr k))" rule: strict_eq.cases) auto

lemma of_kind_object: "r \<noteq> JNull \<Longrightarrow> of_kind kind r = Inr (get r ''type'' = Some (JStr kind))"
  by (cases r) (simp_all add: of_kind_def ebind_def strict_eq_str)

lemma filter_js_total:
  "\<forall>x\<in>set xs. p x = Inr (P x) \<Longrightarrow> filter_js p xs = Inr (filter P xs)"
  by (induction xs) simp_all

lemma filter_of_kind:
  "JNull \<notin> set rs \<Longrightarrow> filter_js (of_kind kind) rs = Inr (candidates kind rs)"
  unfolding candidates_def
proof (rule filter_js_total, rule ballI)
  fix r assume "JNull \<notin> set rs" "r \<in> set rs"
  then have "r \<noteq> JNull" by auto
  then show "of_kind kind r = Inr (get r ''type'' = Some (JStr kind))"
    by (rule of_kind_object)
qed

lemma truthy_length: "truthy (olength (Some (JArr xs))) \<longleftrightarrow> xs \<noteq> []"
  by simp

lemma candidates_Nil: "candidates kind [] = []"
  by (simp add: candidates_def)

lemma search_results_answered:
  assumes "answers E q kind rs"
  shows "search_results E q kind noun =
           (if candidates kind rs = [] then Inl (no_result q noun) else Inr (candidates kind rs),
            [Fetch (search_request q kind)])"
proof -
  from assms obtain response data where
    f: "fetch E (search_request q kind) = Inr response" and
    p: "JSON_parse E (body response) = Inr data" and
    r: "oprop (oprop (Some data) ''auto'') ''results'' = Some (JArr rs)" and
    n: "JNull \<notin> set rs"
    by (auto simp: answers_def split: sum.splits)
  from r have d: "data \<noteq> JNull" by (cases data) auto
  then have a: "getprop (Some data) ''auto'' = Inr (get data ''auto'')"
    by (cases data) simp_all
  from d have o: "oprop (Some data) ''auto'' = get data ''auto''"
    by (cases data) simp_all
  show ?thesis
  proof (cases "rs = []")
    case True
    then show ?thesis
      using f p a r o by (simp add: search_results_def ebind_def candidates_Nil)
  next
    case False
    then show ?thesis
      using f p a r o filter_of_kind [OF n, of kind]
      by (simp add: search_results_def ebind_def)
  qed
qed

lemma fst_settle:
  "fst (settle label attempt c) = (case fst (attempt c) of Inl e \<Rightarrow> None | Inr r \<Rightarrow> r)"
  by (cases "attempt c"; cases "fst (attempt c)") (auto simp: settle_def)

lemma map_filter_settle:
  "List.map_filter fst (map (settle label attempt) cs) = parsed attempt cs"
  unfolding parsed_def
  by (induction cs) (auto simp: List.map_filter_simps fst_settle split: option.splits sum.splits)

lemma fan_out_parsed:
  "fan_out label attempt cs =
     (Inr (parsed attempt cs), concat (map (\<lambda>c. snd (settle label attempt c)) cs))"
  by (simp add: fan_out_def map_filter_settle)

lemma search_body:
  assumes "answers E q kind rs"
  shows "rethrow code (io_bind (search_results E q kind noun)
                         (\<lambda>results. fan_out label attempt (take n results))) =
           (if candidates kind rs = []
            then (Inl (DisTuneError code [AMessageOf (no_result q noun)]),
                  [Fetch (search_request q kind)])
            else (Inr (parsed attempt (take n (candidates kind rs))),
                  Fetch (search_request q kind) #
                    concat (map (\<lambda>c. snd (settle label attempt c)) (take n (candidates kind rs)))))"
  by (simp add: search_results_answered [OF assms] fan_out_parsed io_bind_def rethrow_def)

lemma parsed_Nil: "parsed attempt [] = []"
  by (simp add: parsed_def List.map_filter_simps)

lemma parsed_Cons:
  "parsed attempt (c # cs) =
     (case fst (attempt c) of
        Inl e \<Rightarrow> parsed attempt cs
      | Inr None \<Rightarrow> parsed attempt cs
      | Inr (Some r) \<Rightarrow> r # parsed attempt cs)"
  by (simp add: parsed_def List.map_filter_simps split: sum.splits option.splits)

lemma succeeded_iff: "succeeded attempt c \<longleftrightarrow> (\<exists>r. fst (attempt c) = Inr (Some r))"
  by (cases "fst (attempt c)") (auto simp: succeeded_def)

lemma parsed_step:
  "parsed attempt (c # cs) =
     (if succeeded attempt c then (case fst (attempt c) of Inr (Some r) \<Rightarrow> [r] | _ \<Rightarrow> []) else [])
       @ parsed attempt cs"
  by (cases "fst (attempt c)") (auto simp: parsed_Cons succeeded_def split: option.splits)

lemma parsed_in_order:
  "list_all2 (\<lambda>c r. fst (attempt c) = Inr (Some r)) (filter (succeeded attempt) cs) (parsed attempt cs)"
proof (induction cs)
  case Nil
  show ?case by (simp add: parsed_Nil)
next
  case (Cons c cs)
  show ?case
  proof (cases "succeeded attempt c")
    case True
    then obtain r where "fst (attempt c) = Inr (Some r)"
      by (auto simp: succeeded_iff)
    with True Cons show ?thesis by (simp add: parsed_step)
  next
    case False
    with Cons show ?thesis by (simp add: parsed_step)
  qed
qed

lemma parsed_all_failed:
  "\<forall>c\<in>set cs. \<not> succeeded attempt c \<Longrightarrow> parsed attempt cs = []"
  by (induction cs) (simp_all add: parsed_Nil parsed_step)

lemma parsed_filter:
  "\<forall>c. \<not> P c \<longrightarrow> fst (attempt c) = Inr None \<Longrightarrow> parsed attempt (filter P cs) = parsed attempt cs"
  by (induction cs) (auto simp: parsed_Nil parsed_Cons split: sum.splits option.splits)

lemma events_filter:
  "\<forall>c. \<not> P c \<longrightarrow> f c = [] \<Longrightarrow> concat (map f (filter P cs)) = concat (map f cs)"
  by (induction cs) auto

lemma song_attempt_pathless: "\<not> has_path c \<Longrightarrow> song_attempt E c = (Inr None, [])"
  by (auto simp: song_attempt_def has_path_def split: option.splits)

lemma album_attempt_pathless: "\<not> has_path c \<Longrightarrow> album_attempt E c = (Inr None, [])"
  by (auto simp: album_attempt_def has_path_def split: option.splits)

lemma searchSongs_answered:
  assumes "\<not> invalid_limit (with_default limit)" and "answers E q ''t'' rs"
  shows "searchSongs E (Some (JStr q)) limit =
           (if candidates ''t'' rs = []
            then (Inl (DisTuneError ''BANDCAMP_PLUGIN_SEARCH_ERROR'' [AMessageOf (no_result q ''tracks'')]),
                  [Fetch (search_request q ''t'')])
            else (Inr (parsed (song_attempt E) (take (slice_end (with_default limit)) (candidates ''t'' rs))),
                  Fetch (search_request q ''t'') #
                    concat (map (\<lambda>c. snd (settle ''Error fetching track:'' (song_attempt E) c))
                              (take (slice_end (with_default limit)) (candidates ''t'' rs)))))"
  using assms(1) by (simp add: search_body [OF assms(2)])

lemma searchAlbums_answered:
  assumes "\<not> invalid_limit (with_default limit)" and "answers E q ''a'' rs"
  shows "searchAlbums E (Some (JStr q)) limit =
           (if candidates ''a'' rs = []
            then (Inl (DisTuneError ''BANDCAMP_PLUGIN_SEARCH_ERROR'' [AMessageOf (no_result q ''albums'')]),
                  [Fetch (search_request q ''a'')])
            else (Inr (parsed (album_attempt E) (take (slice_end (with_default limit)) (candidates ''a'' rs))),
                  Fetch (search_request q ''a'') #
                    concat (map (\<lambda>c. snd (settle ''Error fetching album:'' (album_attempt E) c))
                              (take (slice_end (with_default limit)) (candidates ''a'' rs)))))"
  using assms(1) by (simp add: search_body [OF assms(2)])

lemma parsed_facts:
  "list_all2 (\<lambda>c r. fst (attempt c) = Inr (Some r)) (filter (succeeded attempt) cs) (parsed attempt cs)
   \<and> length (parsed attempt cs) = length (filter (succeeded attempt) cs)
   \<and> ((\<forall>c\<in>set cs. \<not> succeeded attempt c) \<longrightarrow> parsed attempt cs = [])"
  using parsed_in_order [of attempt cs] parsed_all_failed [of cs attempt]
  by (auto dest: list_all2_lengthD)

lemma ex_succeeded:
  "succeeded (song_attempt example_env) (candidate ''t'' ''https://a.bandcamp.com/track/one'')"
  "\<not> succeeded (song_attempt example_env) (candidate ''t'' ''https://a.bandcamp.com/track/gone'')"
  "\<not> succeeded (song_attempt example_env) (JObj [(''type'', JStr ''t'')])"
  "succeeded (album_attempt example_env) (candidate ''a'' ''https://a.bandcamp.com/album/lp'')"
  by (simp_all add: succeeded_def ex_attempts)

lemma ex_default: "\<not> invalid_limit (with_default None)" "slice_end (with_default None) = 10"
  "\<not> invalid_limit (with_default (Some (JNum (Fin 2))))" "slice_end (with_default (Some (JNum (Fin 2)))) = 2"
  by (simp_all add: with_default_def)

text \<open>
  C1. When the endpoint answers and the filtered candidate list is not empty, the search
  returns a list and never throws; the list corresponds, element by element and in the
  order of the candidate list, to the dispatched candidates (the first \<open>n\<close> of the filtered
  list, \<open>n\<close> the limit) for which fetch and parse succeeded: a candidate whose fetch or
  parse fails is left out. So the length is the number of those candidates, and when
  every candidate fails the result is the empty list. This holds for every environment,
  that is, for every assignment of outcomes to the candidates.
\<close>

theorem search_fan_out:
  assumes "\<not> invalid_limit (with_default limit)" and "n = slice_end (with_default limit)"
  shows "(answers E q ''t'' rs \<and> candidates ''t'' rs \<noteq> [] \<longrightarrow>
            (\<exists>songs. fst (searchSongs E (Some (JStr q)) limit) = Inr songs
               \<and> list_all2 (\<lambda>c s. fst (song_attempt E c) = Inr (Some s))
                    (filter (succeeded (song_attempt E)) (take n (candidates ''t'' rs))) songs
               \<and> length songs = length (filter (succeeded (song_attempt E)) (take n (candidates ''t'' rs)))
               \<and> ((\<forall>c\<in>set (take n (candidates ''t'' rs)). \<not> succeeded (song_attempt E) c) \<longrightarrow> songs = [])))
       \<and> (answers E q ''a'' rs \<and> candidates ''a'' rs \<noteq> [] \<longrightarrow>
            (\<exists>albums. fst (searchAlbums E (Some (JStr q)) limit) = Inr albums
               \<and> list_all2 (\<lambda>c a. fst (album_attempt E c) = Inr (Some a))
                    (filter (succeeded (album_attempt E)) (take n (candidates ''a'' rs))) albums
               \<and> length albums = length (filter (succeeded (album_attempt E)) (take n (candidates ''a'' rs)))
               \<and> ((\<forall>c\<in>set (take n (candidates ''a'' rs)). \<not> succeeded (album_attempt E) c) \<longrightarrow> albums = [])))"
proof (intro conjI impI)
  assume h: "answers E q ''t'' rs \<and> candidates ''t'' rs \<noteq> []"
  then have "fst (searchSongs E (Some (JStr q)) limit)
               = Inr (parsed (song_attempt E) (take n (candidates ''t'' rs)))"
    unfolding searchSongs_answered [OF assms(1) conjunct1 [OF h]] using assms(2) by simp
  then show "\<exists>songs. fst (searchSongs E (Some (JStr q)) limit) = Inr songs
               \<and> list_all2 (\<lambda>c s. fst (song_attempt E c) = Inr (Some s))
                    (filter (succeeded (song_attempt E)) (take n (candidates ''t'' rs))) songs
               \<and> length songs = length (filter (succeeded (song_attempt E)) (take n (candidates ''t'' rs)))
               \<and> ((\<forall>c\<in>set (take n (candidates ''t'' rs)). \<not> succeeded (song_attempt E) c) \<longrightarrow> songs = [])"
    using parsed_facts [of "song_attempt E" "take n (candidates ''t'' rs)"] by blast
next
  assume h: "answers E q ''a'' rs \<and> candidates ''a'' rs \<noteq> []"
  then have "fst (searchAlbums E (Some (JStr q)) limit)
               = Inr (parsed (album_attempt E) (take n (candidates ''a'' rs)))"
    unfolding searchAlbums_answered [OF assms(1) conjunct1 [OF h]] using assms(2) by simp
  then show "\<exists>albums. fst (searchAlbums E (Some (JStr q)) limit) = Inr albums
               \<and> list_all2 (\<lambda>c a. fst (album_attempt E c) = Inr (Some a))
                    (filter (succeeded (album_attempt E)) (take n (candidates ''a'' rs))) albums
               \<and> length albums = length (filter (succeeded (album_attempt E)) (take n (candidates ''a'' rs)))
               \<and> ((\<forall>c\<in>set (take n (candidates ''a'' rs)). \<not> succeeded (album_attempt E) c) \<longrightarrow> albums = [])"
    using parsed_facts [of "album_attempt E" "take n (candidates ''a'' rs)"] by blast
qed

theorem search_fan_out_witness:
  "fst (searchSongs example_env (Some (JStr ''one'')) None)
     = Inr [example_track ''1'' ''One'' ''one'' ''Unknown Artist'' ''https://s/1'',
            example_track ''1'' ''One'' ''one'' ''Unknown Artist'' ''https://s/1'']
   \<and> fst (searchAlbums example_env (Some (JStr ''one'')) None) = Inr [example_album None]"
proof -
  have "answers example_env ''one'' ''t'' example_results \<and> candidates ''t'' example_results \<noteq> []"
    and "answers example_env ''one'' ''a'' example_results \<and> candidates ''a'' example_results \<noteq> []"
    by (simp_all add: ex_answers ex_candidates)
  then show ?thesis
    using search_fan_out [OF ex_default(1) ex_default(2) [symmetric], of example_env "''one''" example_results]
    by (auto simp: ex_candidates ex_succeeded ex_attempts list_all2_Cons1)
qed

text \<open>
  C4. The specification states that for a query whose answer has no candidate of the kind,
  the caller observes the no-result error. In the example world the query \<^verbatim>\<open>nothing\<close> is answered with one band
  and no track; \<^verbatim>\<open>searchSongs\<close> throws the search error, which carries the message of the
  no-result error and is not that error.
\<close>

theorem search_error_not_no_result:
  \<open>answers example_env ''nothing'' ''t'' [JObj [(''type'', JStr ''b'')]]
   \<and> candidates ''t'' [JObj [(''type'', JStr ''b'')]] = []
   \<and> searchSongs example_env (Some (JStr ''nothing'')) None
       = (Inl (DisTuneError ''BANDCAMP_PLUGIN_SEARCH_ERROR''
                 [AMessageOf (DisTuneError ''BANDCAMP_PLUGIN_NO_RESULT''
                    [AStr ''Cannot find any "nothing" tracks on Bandcamp!''])]),
          [Fetch (search_request ''nothing'' ''t'')])
   \<and> fst (searchSongs example_env (Some (JStr ''nothing'')) None)
       \<noteq> Inl (DisTuneError ''BANDCAMP_PLUGIN_NO_RESULT''
                 [AStr ''Cannot find any "nothing" tracks on Bandcamp!''])\<close>
  unfolding searchSongs_answered [OF ex_default(1) ex_answers(3)]
  by (simp add: ex_answers ex_candidates no_result_def)

text \<open>
  C4, as amended: for every query whose answer has no candidate of the kind searched for,
  the search fails with the search error of the plugin (\<^verbatim>\<open>BANDCAMP_PLUGIN_SEARCH_ERROR\<close>)
  carrying the message of the no-result error, after the one search request and without
  any page fetch. The no-result error is thrown inside the \<^verbatim>\<open>try\<close> block, whose \<^verbatim>\<open>catch\<close>
  wraps every error.
\<close>

theorem search_no_result_wrapped:
  assumes "\<not> invalid_limit (with_default limit)"
  shows \<open>(answers E q ''t'' rs \<and> candidates ''t'' rs = [] \<longrightarrow>
            searchSongs E (Some (JStr q)) limit =
              (Inl (DisTuneError ''BANDCAMP_PLUGIN_SEARCH_ERROR''
                      [AMessageOf (DisTuneError ''BANDCAMP_PLUGIN_NO_RESULT''
                         [AStr (''Cannot find any "'' @ q @ ''" tracks on Bandcamp!'')])]),
               [Fetch (search_request q ''t'')]))
       \<and> (answers E q ''a'' rs \<and> candidates ''a'' rs = [] \<longrightarrow>
            searchAlbums E (Some (JStr q)) limit =
              (Inl (DisTuneError ''BANDCAMP_PLUGIN_SEARCH_ERROR''
                      [AMessageOf (DisTuneError ''BANDCAMP_PLUGIN_NO_RESULT''
                         [AStr (''Cannot find any "'' @ q @ ''" albums on Bandcamp!'')])]),
               [Fetch (search_request q ''a'')]))\<close>
proof (intro conjI impI)
  assume "answers E q ''t'' rs \<and> candidates ''t'' rs = []"
  then show \<open>searchSongs E (Some (JStr q)) limit =
              (Inl (DisTuneError ''BANDCAMP_PLUGIN_SEARCH_ERROR''
                      [AMessageOf (DisTuneError ''BANDCAMP_PLUGIN_NO_RESULT''
                         [AStr (''Cannot find any "'' @ q @ ''" tracks on Bandcamp!'')])]),
               [Fetch (search_request q ''t'')])\<close>
    using assms by (simp add: searchSongs_answered [of limit E q rs] no_result_def del: searchSongs.simps)
next
  assume "answers E q ''a'' rs \<and> candidates ''a'' rs = []"
  then show \<open>searchAlbums E (Some (JStr q)) limit =
              (Inl (DisTuneError ''BANDCAMP_PLUGIN_SEARCH_ERROR''
                      [AMessageOf (DisTuneError ''BANDCAMP_PLUGIN_NO_RESULT''
                         [AStr (''Cannot find any "'' @ q @ ''" albums on Bandcamp!'')])]),
               [Fetch (search_request q ''a'')])\<close>
    using assms by (simp add: searchAlbums_answered [of limit E q rs] no_result_def del: searchAlbums.simps)
qed

theorem search_no_result_wrapped_witness:
  \<open>searchSongs example_env (Some (JStr ''nothing'')) (Some (JNum (Fin 2)))
       = (Inl (DisTuneError ''BANDCAMP_PLUGIN_SEARCH_ERROR''
                 [AMessageOf (DisTuneError ''BANDCAMP_PLUGIN_NO_RESULT''
                    [AStr ''Cannot find any "nothing" tracks on Bandcamp!''])]),
          [Fetch (search_request ''nothing'' ''t'')])
   \<and> searchAlbums example_env (Some (JStr ''nothing'')) (Some (JNum (Fin 2)))
       = (Inl (DisTuneError ''BANDCAMP_PLUGIN_SEARCH_ERROR''
                 [AMessageOf (DisTuneError ''BANDCAMP_PLUGIN_NO_RESULT''
                    [AStr ''Cannot find any "nothing" albums on Bandcamp!''])]),
          [Fetch (search_request ''nothing'' ''a'')])\<close>
  using search_no_result_wrapped [OF ex_default(3), of example_env "''nothing''" "[JObj [(''type'', JStr ''b'')]]"]
  by (simp add: ex_answers ex_candidates del: searchSongs.simps searchAlbums.simps)

text \<open>
  C9. A candidate without a URL path fragment gives \<^verbatim>\<open>null\<close> and no event: no page fetch,
  and no entry in the console, so it is not reported as a failure. The whole search, its
  result and its events, is the same as if these candidates had not been dispatched.
\<close>

theorem search_skips_pathless:
  assumes "\<not> invalid_limit (with_default limit)" and "n = slice_end (with_default limit)"
  shows "(\<not> has_path c \<longrightarrow>
            settle ''Error fetching track:'' (song_attempt E) c = (None, [])
            \<and> settle ''Error fetching album:'' (album_attempt E) c = (None, []))
       \<and> (answers E q ''t'' rs \<and> candidates ''t'' rs \<noteq> [] \<longrightarrow>
            searchSongs E (Some (JStr q)) limit =
              (Inr (parsed (song_attempt E) (filter has_path (take n (candidates ''t'' rs)))),
               Fetch (search_request q ''t'') #
                 concat (map (\<lambda>c. snd (settle ''Error fetching track:'' (song_attempt E) c))
                           (filter has_path (take n (candidates ''t'' rs))))))
       \<and> (answers E q ''a'' rs \<and> candidates ''a'' rs \<noteq> [] \<longrightarrow>
            searchAlbums E (Some (JStr q)) limit =
              (Inr (parsed (album_attempt E) (filter has_path (take n (candidates ''a'' rs)))),
               Fetch (search_request q ''a'') #
                 concat (map (\<lambda>c. snd (settle ''Error fetching album:'' (album_attempt E) c))
                           (filter has_path (take n (candidates ''a'' rs))))))"
proof -
  have s: "\<forall>c. \<not> has_path c \<longrightarrow> fst (song_attempt E c) = Inr None"
    by (simp add: song_attempt_pathless)
  have a: "\<forall>c. \<not> has_path c \<longrightarrow> fst (album_attempt E c) = Inr None"
    by (simp add: album_attempt_pathless)
  have se: "\<forall>c. \<not> has_path c \<longrightarrow> snd (settle ''Error fetching track:'' (song_attempt E) c) = []"
    by (simp add: settle_def song_attempt_pathless)
  have ae: "\<forall>c. \<not> has_path c \<longrightarrow> snd (settle ''Error fetching album:'' (album_attempt E) c) = []"
    by (simp add: settle_def album_attempt_pathless)
  have one: "\<not> has_path c \<longrightarrow>
            settle ''Error fetching track:'' (song_attempt E) c = (None, [])
            \<and> settle ''Error fetching album:'' (album_attempt E) c = (None, [])"
    by (simp add: settle_def song_attempt_pathless album_attempt_pathless)
  have songs: "searchSongs E (Some (JStr q)) limit =
              (Inr (parsed (song_attempt E) (filter has_path (take n (candidates ''t'' rs)))),
               Fetch (search_request q ''t'') #
                 concat (map (\<lambda>c. snd (settle ''Error fetching track:'' (song_attempt E) c))
                           (filter has_path (take n (candidates ''t'' rs)))))"
    if "answers E q ''t'' rs \<and> candidates ''t'' rs \<noteq> []"
    unfolding searchSongs_answered [OF assms(1) conjunct1 [OF that]]
    using that assms(2) by (simp add: parsed_filter [OF s] events_filter [OF se])
  have albums: "searchAlbums E (Some (JStr q)) limit =
              (Inr (parsed (album_attempt E) (filter has_path (take n (candidates ''a'' rs)))),
               Fetch (search_request q ''a'') #
                 concat (map (\<lambda>c. snd (settle ''Error fetching album:'' (album_attempt E) c))
                           (filter has_path (take n (candidates ''a'' rs)))))"
    if "answers E q ''a'' rs \<and> candidates ''a'' rs \<noteq> []"
    unfolding searchAlbums_answered [OF assms(1) conjunct1 [OF that]]
    using that assms(2) by (simp add: parsed_filter [OF a] events_filter [OF ae])
  show ?thesis
    using one songs albums by blast
qed

theorem search_skips_pathless_witness:
  "\<not> has_path (JObj [(''type'', JStr ''t'')])
   \<and> searchSongs example_env (Some (JStr ''one'')) None
     = (Inr [example_track ''1'' ''One'' ''one'' ''Unknown Artist'' ''https://s/1'',
             example_track ''1'' ''One'' ''one'' ''Unknown Artist'' ''https://s/1''],
        [Fetch (search_request ''one'' ''t''),
         Fetch (page_request (JStr ''https://a.bandcamp.com/track/one'')),
         Fetch (page_request (JStr ''https://a.bandcamp.com/track/gone'')),
         ConsoleError ''Error fetching track:'' (LError (Error ''Failed to fetch page: 404 Not Found'')),
         Fetch (page_request (JStr ''https://a.bandcamp.com/track/one''))])"
proof -
  have p: "has_path (candidate ''t'' u) \<longleftrightarrow> u \<noteq> []" for u
    by (simp add: has_path_def candidate_def)
  have n: "\<not> has_path (JObj [(''type'', JStr ''t'')])"
    by (simp add: has_path_def)
  have "answers example_env ''one'' ''t'' example_results \<and> candidates ''t'' example_results \<noteq> []"
    by (simp add: ex_answers ex_candidates)
  then show ?thesis
    using search_skips_pathless [OF ex_default(1) ex_default(2) [symmetric], of "JObj [(''type'', JStr ''t'')]" example_env "''one''" example_results]
    by (simp add: ex_candidates p n parsed_Nil parsed_Cons ex_attempts settle_def
          del: searchSongs.simps searchAlbums.simps)
qed

subsection \<open>Album assembly\<close>

lemma getprop_object: "t \<noteq> JNull \<Longrightarrow> getprop (Some t) k = Inr (get t k)"
  by (cases t) simp_all

lemma has_stream_object: "t \<noteq> JNull \<Longrightarrow> has_stream t = Inr (playable t)"
  by (simp add: has_stream_def mp3_128_def getprop_object ebind_def playable_def stream_of_def)

lemma filter_playable:
  "\<forall>t\<in>set ts. t \<noteq> JNull \<Longrightarrow> filter_js has_stream ts = Inr (filter playable ts)"
  by (rule filter_js_total) (simp add: has_stream_object)

lemma converts_otoString: "converts E v \<Longrightarrow> \<exists>i. otoString E v = Inr i"
  by (cases "(E, v)" rule: otoString.cases)
     (auto simp: ebind_def split: sum.splits)

lemma converts_track_id:
  "converts E (get t ''track_id'') \<Longrightarrow> \<exists>i. track_id_of E t = Inr i"
  by (auto simp: track_id_of_def ebind_def dest: converts_otoString)

lemma playable_string:
  assumes "entry_ok E t" and "playable t"
  shows "\<exists>w. stream_of t = Some (JStr w) \<and> w \<noteq> []"
proof (cases "stream_of t")
  case None
  with assms(2) show ?thesis by (simp add: playable_def)
next
  case (Some j)
  with assms show ?thesis by (cases j) (auto simp: playable_def entry_ok_def)
qed

lemma BandcampSong_string:
  assumes "t_streamUrl info = Some (JStr w)" and "w \<noteq> []" and "t_url info = Some (JStr u)"
  shows "\<exists>s. BandcampSong info = Inr s \<and> song_name s = t_title info
             \<and> streamUrl s = Some (JStr (with_scheme w)) \<and> song_id s = t_id info
             \<and> trackNumber s = t_trackNumber info"
  using assms by (simp add: BandcampSong_def ebind_def with_scheme_def)

lemma album_track_info_ok:
  assumes "entry_ok E t" and "playable t"
  shows "\<exists>info u'. album_track_info E (JStr u) d artist thumbnail t = Inr info
           \<and> t_title info = get t ''title'' \<and> t_streamUrl info = stream_of t
           \<and> t_url info = Some (JStr u') \<and> t_trackNumber info = get t ''track_num''"
proof -
  from assms(1) obtain i where i: "track_id_of E t = Inr i"
    using converts_track_id by (auto simp: entry_ok_def)
  show ?thesis
  proof (cases "get t ''title_link''")
    case None
    then show ?thesis by (simp add: album_track_info_def i ebind_def stream_of_def)
  next
    case (Some link)
    show ?thesis
    proof (cases "truthy (Some link)")
      case True
      with Some assms(1) obtain slug where "toString E link = Inr slug"
        by (cases link) (auto simp: entry_ok_def split: sum.splits)
      with Some True show ?thesis
        by (simp add: album_track_info_def i ebind_def stream_of_def)
    next
      case False
      with Some show ?thesis
        by (simp add: album_track_info_def i ebind_def stream_of_def)
    qed
  qed
qed

lemma map_js_two:
  assumes "\<forall>x\<in>set xs. \<exists>y z. f x = Inr y \<and> g y = Inr z \<and> R x z"
  shows "\<exists>ys zs. map_js f xs = Inr ys \<and> map_js g ys = Inr zs \<and> list_all2 R xs zs"
  using assms
proof (induction xs)
  case Nil
  show ?case by simp
next
  case (Cons x xs)
  then obtain ys zs where r: "map_js f xs = Inr ys" "map_js g ys = Inr zs" "list_all2 R xs zs"
    by auto
  from Cons.prems obtain y z where "f x = Inr y" "g y = Inr z" "R x z"
    by auto
  with r show ?case by simp
qed

lemma entry_song:
  assumes "entry_ok E t" and "playable t"
  shows "\<exists>info s. album_track_info E (JStr u) d artist thumbnail t = Inr info
           \<and> BandcampSong info = Inr s \<and> built_from t s"
proof -
  from album_track_info_ok [OF assms, of u d artist thumbnail]
  obtain info u' where info: "album_track_info E (JStr u) d artist thumbnail t = Inr info"
    "t_title info = get t ''title''" "t_streamUrl info = stream_of t"
    "t_url info = Some (JStr u')" "t_trackNumber info = get t ''track_num''"
    by blast
  from playable_string [OF assms] obtain w where w: "stream_of t = Some (JStr w)" "w \<noteq> []"
    by blast
  from BandcampSong_string [of info w u'] info w
  obtain s where "BandcampSong info = Inr s" "song_name s = t_title info"
    "streamUrl s = Some (JStr (with_scheme w))" "trackNumber s = t_trackNumber info"
    by auto
  with info w show ?thesis by (auto simp: built_from_def)
qed

text \<open>
  C2. For every decoded record whose \<^verbatim>\<open>trackinfo\<close> is an array of entries of the shape above,
  album-page assembly produces an album, and the tracks of the album correspond, one to
  one and in the order of the page data, to the entries that possess an \<^verbatim>\<open>mp3-128\<close> stream
  URL: the track count is the number of these entries, and the first track is built from
  the first of them. The other entries are dropped, and nothing is sorted.
\<close>

theorem album_tracks:
  assumes "tralbumData \<noteq> JNull"
      and "get tralbumData ''trackinfo'' = Some (JArr ts)"
      and "\<forall>t\<in>set ts. entry_ok E t"
      and "converts E (oprop (get tralbumData ''current'') ''id'')"
  shows "\<exists>a. assemble_album E html (JStr u) tralbumData = Inr a
           \<and> length (album_songs a) = length (filter playable ts)
           \<and> list_all2 built_from (filter playable ts) (album_songs a)
           \<and> (filter playable ts \<noteq> [] \<longrightarrow>
                album_songs a \<noteq> [] \<and> built_from (hd (filter playable ts)) (hd (album_songs a)))
           \<and> (extract_tralbum E ''Could not find album data on page'' html = Inr tralbumData \<longrightarrow>
                parseAlbumPage E html (JStr u) = Inr a)"
proof -
  let ?artist = "or_else (get tralbumData ''artist'') (Some (JStr (extractArtistFromMeta html)))"
  let ?thumb = "or_else (or_else (get tralbumData ''artFullsizeUrl'') (get tralbumData ''artThumbURL''))
                  (extractThumbnailFromMeta html)"
  have nn: "\<forall>t\<in>set ts. t \<noteq> JNull"
    using assms(3) by (simp add: entry_ok_def)
  have kept: "filter_js has_stream ts = Inr (filter playable ts)"
    by (rule filter_playable [OF nn])
  have "\<forall>t\<in>set (filter playable ts). \<exists>info s.
          album_track_info E (JStr u) tralbumData ?artist ?thumb t = Inr info
          \<and> BandcampSong info = Inr s \<and> built_from t s"
    using assms(3) entry_song by simp
  from map_js_two [OF this] obtain infos songs where
    m: "map_js (album_track_info E (JStr u) tralbumData ?artist ?thumb) (filter playable ts) = Inr infos"
       "map_js BandcampSong infos = Inr songs" "list_all2 built_from (filter playable ts) songs"
    by blast
  from converts_otoString [OF assms(4)] obtain i where
    i: "otoString E (oprop (get tralbumData ''current'') ''id'') = Inr i"
    by blast
  have a: "assemble_album E html (JStr u) tralbumData =
             Inr \<lparr> album_source = ''bandcamp'', album_id = or_else i (Some (JStr u)),
                   album_name = or_else (oprop (get tralbumData ''current'') ''title'')
                                  (Some (JStr ''Unknown Album'')),
                   album_artist = ?artist, album_url = Some (JStr u), album_thumbnail = ?thumb,
                   album_songs = songs \<rparr>"
    by (simp add: assemble_album_def getprop_object [OF assms(1)] assms(2) kept m i ebind_def
          BandcampAlbum_def Let_def)
  have h: "filter playable ts \<noteq> [] \<longrightarrow> songs \<noteq> [] \<and> built_from (hd (filter playable ts)) (hd songs)"
    using m(3) by (cases "filter playable ts"; cases songs) auto
  show ?thesis
    using a m(3) h list_all2_lengthD [OF m(3)] by (simp add: parseAlbumPage_def ebind_def)
qed

lemma ex_toString2: "toString example_env (JNum (Fin 2)) = Inr ''2''"
  by (simp add: example_env_def decimal.simps)

lemma ex_playable:
  "filter playable [entry_one, entry_two, entry_three] = [entry_one, entry_three]"
  by (simp add: playable_def stream_of_def entry_one_def entry_two_def entry_three_def)

lemma ex_entries:
  "entry_ok example_env entry_one" "entry_ok example_env entry_two" "entry_ok example_env entry_three"
  by (simp_all add: entry_ok_def stream_of_def entry_one_def entry_two_def entry_three_def
        ex_toString ex_toString2)

theorem album_tracks_witness:
  "\<exists>a. parseAlbumPage example_env (page_of album_text) (JStr ''https://a.bandcamp.com/album/lp'') = Inr a
      \<and> length (album_songs a) = 2
      \<and> song_name (hd (album_songs a)) = Some (JStr ''One'')
      \<and> streamUrl (hd (album_songs a)) = Some (JStr ''https://s/1'')
      \<and> map song_name (album_songs a) = [Some (JStr ''One''), Some (JStr ''Three'')]"
proof -
  have d: "album_json \<noteq> JNull"
    and t: "get album_json ''trackinfo'' = Some (JArr [entry_one, entry_two, entry_three])"
    and c: "converts example_env (oprop (get album_json ''current'') ''id'')"
    by (simp_all add: album_json_def ex_toString)
  have e: "\<forall>t\<in>set [entry_one, entry_two, entry_three]. entry_ok example_env t"
    by (simp add: ex_entries)
  have b: "built_from entry_one s \<longleftrightarrow>
             song_name s = Some (JStr ''One'') \<and> streamUrl s = Some (JStr ''https://s/1'')
             \<and> trackNumber s = None" for s
    by (simp add: built_from_def stream_of_def entry_one_def with_scheme_def startsWith_def)
  have b3: "built_from entry_three s \<Longrightarrow> song_name s = Some (JStr ''Three'')" for s
    by (simp add: built_from_def entry_three_def)
  show ?thesis
    using album_tracks [OF d t e c, of "page_of album_text" "''https://a.bandcamp.com/album/lp''",
        unfolded ex_playable]
    by (auto simp: ex_extract b list_all2_Cons1 dest: b3)
qed

subsection \<open>Related songs\<close>

lemma map_js_length: "map_js f xs = Inr ys \<Longrightarrow> length ys = length xs"
  by (induction xs arbitrary: ys) (auto split: sum.splits)

lemma related_of_page_bound:
  "related_of_page E song baseUrl html = Inr songs \<Longrightarrow> length songs \<le> 10"
  by (auto simp: related_of_page_def ebind_def Let_def split: option.splits sum.splits
       dest!: map_js_length)

lemma getRelatedSongs_bound: "length (fst (getRelatedSongs E song)) \<le> 10"
  by (auto simp: getRelatedSongs_def getRelatedSongs_try_def io_bind_def
       split: sum.splits prod.splits dest: related_of_page_bound)

text \<open>
  The filter of the lookup on an entry whose \<^verbatim>\<open>track_id\<close> is a number, for a track whose id
  is a string: the comparison of the ids decides nothing.
\<close>

lemma is_related_number_string:
  assumes "t \<noteq> JNull" and "get t ''track_id'' = Some (JNum n)" and "song_id song = Some (JStr i)"
  shows "is_related song t = Inr (playable t)"
  using assms
  by (simp add: is_related_def mp3_128_def getprop_object ebind_def playable_def stream_of_def)

lemma ex_song_fields:
  "song_id (example_track i n s a w) = Some (JStr i)"
  "song_url (example_track i n s a w) = Some (JStr (''https://a.bandcamp.com/track/'' @ s))"
  by (simp_all add: example_track_def)

lemma ex_related_filter:
  "filter_js (is_related (example_track ''1'' n s a w)) [entry_one, entry_two, entry_three]
     = Inr [entry_one, entry_three]"
  by (simp add: is_related_def mp3_128_def ebind_def ex_song_fields entry_one_def entry_two_def
        entry_three_def)

lemma ex_related_song:
  "ebind (related_track_info example_env ''https://a.bandcamp.com'' album_json (Some (JStr ''Band'')) None entry_one)
     BandcampSong = Inr (example_track ''1'' ''One'' ''one'' ''Band'' ''https://s/1'')"
  "ebind (related_track_info example_env ''https://a.bandcamp.com'' album_json (Some (JStr ''Band'')) None entry_three)
     BandcampSong = Inr (example_track ''3'' ''Three'' ''three'' ''Band'' ''https://s/3'')"
  by (simp_all add: related_track_info_def track_id_of_def ex_toString ebind_def or_else_def
        entry_one_def entry_three_def album_json_def BandcampSong_def startsWith_def
        example_track_def)

lemma ex_album_fields:
  "getprop (Some album_json) ''trackinfo'' = Inr (Some (JArr [entry_one, entry_two, entry_three]))"
  "get album_json ''artist'' = Some (JStr ''Band'')"
  "get album_json ''artFullsizeUrl'' = None"
  "get album_json ''artThumbURL'' = None"
  by (simp_all add: album_json_def)

lemma ex_json_parse: "JSON_parse example_env = example_JSON_parse"
  by (simp add: example_env_def)

lemma ex_related_page:
  "related_of_page example_env (example_track ''1'' n s a w) ''https://a.bandcamp.com'' (page_of album_text)
     = Inr [example_track ''1'' ''One'' ''one'' ''Band'' ''https://s/1'',
            example_track ''3'' ''Three'' ''three'' ''Band'' ''https://s/3'']"
  by (simp add: related_of_page_def match_tralbum_page entity_decode_html_encode ex_texts
        ex_json_parse ex_parse ex_album_fields ex_related_filter ebind_def [of "Inr x" for x]
        or_else_def no_meta_page ex_related_song Let_def del: filter_js.simps)

lemma ex_base:
  "str_method (song_url (example_track i n ''one'' a w)) (\<lambda>u. split0 u ''/track/'') = Inr ''https://a.bandcamp.com''"
  by (simp add: ex_song_fields startsWith_def)

lemma ex_try: "getRelatedSongs_try example_env (example_track ''1'' ''One'' ''one'' ''Unknown Artist'' ''https://s/1'')
     = (Inr [example_track ''1'' ''One'' ''one'' ''Band'' ''https://s/1'',
         example_track ''3'' ''Three'' ''three'' ''Band'' ''https://s/3''],
        [Fetch (page_request (JStr ''https://a.bandcamp.com''))])"
  unfolding getRelatedSongs_try_def ex_base
  by (simp add: ex_fetchPage io_bind_def ex_related_page)

text \<open>
  C6. The specification states that the related-tracks lookup leaves out the entry whose
  id equals the id of the original track. The filter compares \<^verbatim>\<open>t.track_id\<close>, a number in the page data, with
  \<^verbatim>\<open>song.id\<close>, the string that \<^verbatim>\<open>track_id.toString()\<close> gave, by \<^verbatim>\<open>!==\<close>: the two are never
  equal, and the original track stays in the list. In the example world the track page
  of track 1 is parsed into a track with the id \<^verbatim>\<open>1\<close>, and the lookup for this track returns
  the tracks 1 and 3 of the band's page. (The other parts of the statement hold: at most ten
  tracks, see \<open>getRelatedSongs_bound\<close>, and never an error, as the type of
  \<open>getRelatedSongs\<close> says.)
\<close>

theorem related_songs_keep_original:
  "fst (parseTrackPage example_env (page_of track_one_text) (JStr ''https://a.bandcamp.com/track/one''))
     = Inr (example_track ''1'' ''One'' ''one'' ''Unknown Artist'' ''https://s/1'')
   \<and> song_id (example_track ''1'' ''One'' ''one'' ''Unknown Artist'' ''https://s/1'') = Some (JStr ''1'')
   \<and> getRelatedSongs example_env (example_track ''1'' ''One'' ''one'' ''Unknown Artist'' ''https://s/1'')
     = ([example_track ''1'' ''One'' ''one'' ''Band'' ''https://s/1'',
         example_track ''3'' ''Three'' ''three'' ''Band'' ''https://s/3''],
        [Fetch (page_request (JStr ''https://a.bandcamp.com''))])
   \<and> map song_id (fst (getRelatedSongs example_env
                          (example_track ''1'' ''One'' ''one'' ''Unknown Artist'' ''https://s/1'')))
     = [Some (JStr ''1''), Some (JStr ''3'')]"
proof -
  have t: "truthy (song_url (example_track ''1'' ''One'' ''one'' ''Unknown Artist'' ''https://s/1''))"
    by (simp add: ex_song_fields)
  have rel: "getRelatedSongs example_env (example_track ''1'' ''One'' ''one'' ''Unknown Artist'' ''https://s/1'')
     = ([example_track ''1'' ''One'' ''one'' ''Band'' ''https://s/1'',
         example_track ''3'' ''Three'' ''three'' ''Band'' ''https://s/3''],
        [Fetch (page_request (JStr ''https://a.bandcamp.com''))])"
    unfolding getRelatedSongs_def ex_try using t by simp
  show ?thesis
    unfolding rel ex_parseTrackPage by (simp add: ex_song_fields)
qed

end
